theory Spec2Isabelle
  imports Main "HOL-Library.AList" "HOL-Library.Multiset"
begin

section \<open>JavaScript values\<close>

text \<open>
  The values a plugin script and the host exchange. A reference carries whether the
  object it points to is callable (fixed at creation), so \<open>typeof\<close> needs no heap:
  \<open>JObj a\<close> is a non-callable object at address \<open>a\<close>, \<open>JFun a\<close> a function object.
  \<open>JProxy t\<close> is the result of \<open>new Proxy(t, handler)\<close> with the one handler of
  \<open>runScript\<close>. Numbers are integers: the code only tests their type and compares them
  with the two enum values. Strings are lists of code units below 256.
\<close>

datatype jsval =
    JUndefined
  | JNull
  | JBool bool
  | JNum int
  | JStr string
  | JObj nat
  | JFun nat
  | JProxy jsval

fun typeof :: "jsval \<Rightarrow> string" where
  "typeof JUndefined = ''undefined''"
| "typeof JNull = ''object''"
| "typeof (JBool b) = ''boolean''"
| "typeof (JNum n) = ''number''"
| "typeof (JStr s) = ''string''"
| "typeof (JObj a) = ''object''"
| "typeof (JFun a) = ''function''"
| "typeof (JProxy t) = typeof t"

text \<open>
  Modelled from the spec: the predicate helpers of \<open>src/core/is\<close> (is-undefined, is-null,
  is-string, is-number, is-function), which are imported by the source and not part of it.
\<close>

definition isUndefined :: "jsval \<Rightarrow> bool" where
  "isUndefined v = (v = JUndefined)"

definition isNull :: "jsval \<Rightarrow> bool" where
  "isNull v = (v = JNull)"

definition isString :: "jsval \<Rightarrow> bool" where
  "isString v = (typeof v = ''string'')"

definition isNumber :: "jsval \<Rightarrow> bool" where
  "isNumber v = (typeof v = ''number'')"

definition isFunction :: "jsval \<Rightarrow> bool" where
  "isFunction v = (typeof v = ''function'')"

text \<open>The string behind a value, read only where \<open>isString\<close> has been established.\<close>

fun str_of :: "jsval \<Rightarrow> string" where
  "str_of (JStr s) = s"
| "str_of _ = []"

text \<open>The number behind a value, read only where \<open>isNumber\<close> has been established.\<close>

fun num_of :: "jsval \<Rightarrow> int" where
  "num_of (JNum n) = n"
| "num_of _ = 0"

section \<open>String operations\<close>

text \<open>\<open>String.prototype.trim\<close>: white space and line terminators below 256.\<close>

definition is_space :: "char \<Rightarrow> bool" where
  "is_space c = ((of_char c :: nat) \<in> {9, 10, 11, 12, 13, 32, 160})"

definition trim :: "string \<Rightarrow> string" where
  "trim s = rev (dropWhile is_space (rev (dropWhile is_space s)))"

text \<open>The character class \<open>[A-Za-z0-9_\-]\<close>.\<close>

definition id_char :: "char \<Rightarrow> bool" where
  "id_char c = (let n = (of_char c :: nat) in
     (65 \<le> n \<and> n \<le> 90) \<or> (97 \<le> n \<and> n \<le> 122) \<or> (48 \<le> n \<and> n \<le> 57) \<or> n = 95 \<or> n = 45)"

text \<open>
  \<open>/[A-Za-z0-9_\-]/.test(s)\<close>: the pattern has no anchors and no quantifier, so it matches
  as soon as one character of the class occurs anywhere in \<open>s\<close>.
\<close>

definition test_id_class :: "string \<Rightarrow> bool" where
  "test_id_class s = list_ex id_char s"

text \<open>Case folding of the \<open>i\<close> flag on the letters the two URL patterns mention.\<close>

definition to_lower :: "char \<Rightarrow> char" where
  "to_lower c =
     (case map_of (zip ''ABCDEFGHIJKLMNOPQRSTUVWXYZ'' ''abcdefghijklmnopqrstuvwxyz'') c of
        None \<Rightarrow> c
      | Some l \<Rightarrow> l)"

definition starts_ci :: "string \<Rightarrow> string \<Rightarrow> bool" where
  "starts_ci pre s = (map to_lower (take (length pre) s) = pre)"

definition line_terminator :: "char \<Rightarrow> bool" where
  "line_terminator c = ((of_char c :: nat) \<in> {10, 13})"

text \<open>\<open>/^https?:\/\/.*?/i.test(s)\<close>: the lazy tail matches the empty string.\<close>

definition test_http :: "string \<Rightarrow> bool" where
  "test_http s = (starts_ci ''http://'' s \<or> starts_ci ''https://'' s)"

text \<open>
  \<open>/^https?:\/\/.*?\.js$/i.test(s)\<close>: the scheme, then characters that are no line
  terminators, then \<open>.js\<close> at the very end.
\<close>

definition js_tail :: "string \<Rightarrow> bool" where
  "js_tail r = (3 \<le> length r
     \<and> map to_lower (drop (length r - 3) r) = ''.js''
     \<and> \<not> list_ex line_terminator (take (length r - 3) r))"

definition test_http_js :: "string \<Rightarrow> bool" where
  "test_http_js s =
     ((starts_ci ''http://'' s \<and> js_tail (drop 7 s))
      \<or> (starts_ci ''https://'' s \<and> js_tail (drop 8 s)))"

text \<open>Decimal rendering of a length inside a template string.\<close>

fun show_nat :: "nat \<Rightarrow> string" where
  "show_nat n =
     (if n < 10 then [''0123456789'' ! n]
      else show_nat (n div 10) @ [''0123456789'' ! (n mod 10)])"

declare show_nat.simps [simp del]

section \<open>Plugin types and the plugin contract\<close>

datatype PluginType = BOOK_SOURCE | BOOK_STORE

text \<open>The numeric value of an enum member.\<close>

fun type_code :: "PluginType \<Rightarrow> int" where
  "type_code BOOK_SOURCE = 0"
| "type_code BOOK_STORE = 1"

text \<open>\<open>PluginType.valueOf\<close>: the lookup in the map built from the numeric members.\<close>

definition valueOf :: "int \<Rightarrow> PluginType option" where
  "valueOf n = (if n = 0 then Some BOOK_SOURCE else if n = 1 then Some BOOK_STORE else None)"

text \<open>
  \<open>PluginBaseProps\<close> and \<open>PluginInterface\<close>: the static properties of the exported
  class, each as the value found there (\<open>JUndefined\<close> when missing), and the three
  members of its prototype that \<open>_isBookSource\<close> reads. The field \<open>TYPE\<close> is written
  \<open>TYPE'\<close>.
\<close>

record PluginBaseProps =
  ID :: jsval
  TYPE' :: jsval
  GROUP :: jsval
  NAME :: jsval
  VERSION :: jsval
  VERSION_CODE :: jsval
  PLUGIN_FILE_URL :: jsval
  BASE_URL :: jsval

record PluginInterface = PluginBaseProps +
  search :: jsval
  getDetail :: jsval
  getTextContent :: jsval

text \<open>
  A run of \<open>if (c) throw m\<close> statements: the message of the first condition that holds,
  or normal completion.
\<close>

fun first_failure :: "(bool \<times> string) list \<Rightarrow> string + unit" where
  "first_failure [] = Inr ()"
| "first_failure ((c, m) # rest) = (if c then Inl m else first_failure rest)"

definition isBookSource :: "PluginInterface \<Rightarrow> string + unit" where
  "isBookSource plugin = first_failure [
     (isUndefined (search plugin), ''Function [search] not found''),
     (\<not> isFunction (search plugin), ''Property [search] is not of function type''),
     (isUndefined (getDetail plugin), ''Function [getDetail] not found''),
     (\<not> isFunction (getDetail plugin), ''Property [getDetail] is not of function type''),
     (isUndefined (getTextContent plugin), ''Function [getTextContent] not found''),
     (\<not> isFunction (getTextContent plugin), ''Property [getTextContent] is not of function type'')]"

definition isBookStore :: "PluginInterface \<Rightarrow> string + unit" where
  "isBookStore plugin = Inl ''unknown''"

text \<open>The checks of \<open>_isPlugin\<close> on the static properties, in the order of the source.\<close>

definition static_checks :: "PluginInterface \<Rightarrow> string + unit" where
  "static_checks plugin = first_failure [
     (isUndefined (ID plugin), ''Static property [ID] not found''),
     (\<not> isString (ID plugin), ''Static property [ID] is not of string type''),
     (\<not> test_id_class (str_of (ID plugin)) \<or> trim (str_of (ID plugin)) \<noteq> str_of (ID plugin),
        ''The ID format is not standard''),
     (length (str_of (ID plugin)) < 16 \<or> length (str_of (ID plugin)) > 32,
        ''Static property [ID] Length:'' @ show_nat (length (str_of (ID plugin)))
          @ '', ID range in length [16,32]''),
     (isUndefined (TYPE' plugin), ''Static property [TYPE] not found''),
     (\<not> isNumber (TYPE' plugin), ''Static property [TYPE] is not of number type''),
     (valueOf (num_of (TYPE' plugin)) = None, ''Static property [TYPE] is unknown plugin type''),
     (isUndefined (GROUP plugin), ''Static property [GROUP] not found''),
     (\<not> isString (GROUP plugin), ''Static property [GROUP] is not of string type''),
     (trim (str_of (GROUP plugin)) \<noteq> str_of (GROUP plugin), ''The GROUP format is not standard''),
     (length (str_of (GROUP plugin)) < 1 \<or> length (str_of (GROUP plugin)) > 15,
        ''Static property [GROUP] Length:'' @ show_nat (length (str_of (GROUP plugin)))
          @ '', GROUP range in length [2,15]''),
     (isUndefined (NAME plugin), ''Static property [NAME] not found''),
     (\<not> isString (NAME plugin), ''Static property [NAME] is not of string type''),
     (trim (str_of (NAME plugin)) \<noteq> str_of (NAME plugin), ''The NAME format is not standard''),
     (length (str_of (NAME plugin)) < 1 \<or> length (str_of (NAME plugin)) > 15,
        ''Static property [NAME] Length:'' @ show_nat (length (str_of (NAME plugin)))
          @ '', NAME range in length [2,15]''),
     (isUndefined (VERSION plugin), ''Static property [VERSION] not found''),
     (\<not> isString (VERSION plugin), ''Static property [VERSION] is not of string type''),
     (trim (str_of (VERSION plugin)) \<noteq> str_of (VERSION plugin),
        ''The VERSION format is not standard''),
     (length (str_of (VERSION plugin)) < 0 \<or> length (str_of (VERSION plugin)) > 8,
        ''Static property [VERSION] Length:'' @ show_nat (length (str_of (VERSION plugin)))
          @ '', VERSION range in length [1,8]''),
     (isUndefined (VERSION_CODE plugin), ''Static property [VERSION_CODE] not found''),
     (\<not> isNumber (VERSION_CODE plugin), ''Static property [VERSION_CODE] is not of number type''),
     (isUndefined (PLUGIN_FILE_URL plugin), ''Static property [PLUGIN_FILE_URL] not found''),
     (\<not> isString (PLUGIN_FILE_URL plugin),
        ''Static property [PLUGIN_FILE_URL] is not of string type''),
     (trim (str_of (PLUGIN_FILE_URL plugin)) \<noteq> [] \<and> \<not> test_http_js (str_of (PLUGIN_FILE_URL plugin)),
        ''The [PLUGIN_FILE_URL] format is not standard''),
     (isUndefined (BASE_URL plugin), ''Static property [BASE_URL] not found''),
     (\<not> isString (BASE_URL plugin), ''Static property [BASE_URL] is not of string type''),
     (trim (str_of (BASE_URL plugin)) = [], ''Static property [BASE_URL] is empty''),
     (\<not> test_http (str_of (BASE_URL plugin)), ''The [BASE_URL] format is not standard'')]"

text \<open>
  \<open>_isPlugin\<close>: the static checks, then the \<open>switch\<close> on \<open>TYPE\<close>, whose \<open>BOOK_SOURCE\<close>
  label shares its body with \<open>default\<close>.
\<close>

definition isPlugin_throws :: "PluginInterface \<Rightarrow> string + unit" where
  "isPlugin_throws plugin =
     (case static_checks plugin of
        Inl e \<Rightarrow> Inl e
      | Inr _ \<Rightarrow>
          if TYPE' plugin = JNum (type_code BOOK_STORE) then isBookStore plugin
          else isBookSource plugin)"

text \<open>\<open>isPlugin\<close>: the public predicate, which swallows the failure.\<close>

definition isPlugin :: "PluginInterface \<Rightarrow> bool" where
  "isPlugin plugin = (case isPlugin_throws plugin of Inl e \<Rightarrow> False | Inr _ \<Rightarrow> True)"

text \<open>The example descriptor of the specification, with the three capabilities present.\<close>

definition demo_plugin :: PluginInterface where
  "demo_plugin = \<lparr>
     ID = JStr ''abcdefghij123456'',
     TYPE' = JNum 0,
     GROUP = JStr ''news'',
     NAME = JStr ''Demo'',
     VERSION = JStr ''1.0'',
     VERSION_CODE = JNum 1,
     PLUGIN_FILE_URL = JStr '''',
     BASE_URL = JStr ''http://example.com'',
     search = JFun 100,
     getDetail = JFun 101,
     getTextContent = JFun 102 \<rparr>"

section \<open>The sandbox of \<open>runScript\<close>\<close>

text \<open>
  Property keys: a string, the well-known symbol \<open>Symbol.unscopables\<close>, or another
  symbol (its identity and its description).
\<close>

datatype propkey = Name string | Unscopables | Symbol nat string

text \<open>\<open>String(p)\<close> inside the two messages.\<close>

fun key_string :: "propkey \<Rightarrow> string" where
  "key_string (Name s) = s"
| "key_string Unscopables = ''Symbol(Symbol.unscopables)''"
| "key_string (Symbol i d) = ''Symbol('' @ d @ '')''"

text \<open>
  An object: its own data properties in creation order, and the addresses of the objects
  of its prototype chain, nearest first. The heap maps addresses to objects.
\<close>

record jsobject =
  own :: "(propkey \<times> jsval) list"
  chain :: "nat list"

type_synonym heap = "nat \<rightharpoonup> jsobject"

text \<open>What a script's failure carries: a thrown string, or a built-in \<open>TypeError\<close>.\<close>

datatype exn = Throw string | TypeError

definition own_lookup :: "heap \<Rightarrow> nat \<Rightarrow> propkey \<Rightarrow> jsval option" where
  "own_lookup h a p = (case h a of None \<Rightarrow> None | Some ob \<Rightarrow> map_of (own ob) p)"

fun first_found :: "jsval option list \<Rightarrow> jsval option" where
  "first_found [] = None"
| "first_found (None # rest) = first_found rest"
| "first_found (Some v # rest) = Some v"

text \<open>The property \<open>p\<close> as seen from the object at \<open>a\<close>: its own, or the nearest inherited.\<close>

definition find_prop :: "heap \<Rightarrow> nat \<Rightarrow> propkey \<Rightarrow> jsval option" where
  "find_prop h a p =
     (case h a of
        None \<Rightarrow> None
      | Some ob \<Rightarrow> first_found (map (\<lambda>b. own_lookup h b p) (a # chain ob)))"

text \<open>An ordinary member read \<open>o.p\<close> on the object at \<open>a\<close>.\<close>

definition prop_value :: "heap \<Rightarrow> nat \<Rightarrow> propkey \<Rightarrow> jsval" where
  "prop_value h a p = (case find_prop h a p of None \<Rightarrow> JUndefined | Some v \<Rightarrow> v)"

text \<open>\<open>new Proxy(val, handler)\<close>: the target has to be an object.\<close>

fun new_Proxy :: "jsval \<Rightarrow> exn + jsval" where
  "new_Proxy (JObj a) = Inr (JProxy (JObj a))"
| "new_Proxy (JFun a) = Inr (JProxy (JFun a))"
| "new_Proxy (JProxy t) = Inr (JProxy (JProxy t))"
| "new_Proxy _ = Inl TypeError"

definition denied_access :: "propkey \<Rightarrow> exn" where
  "denied_access p = Throw (''Permission denied to access property or function ['' @ key_string p @ '']'')"

definition denied_set :: "propkey \<Rightarrow> exn" where
  "denied_set p = Throw (''Permission denied to set property or function ['' @ key_string p @ '']'')"

text \<open>
  The \<open>has\<close> and \<open>get\<close> traps of the handler. \<open>has_in h target p\<close> is \<open>p in target\<close> and
  \<open>Reflect_get\<close> is \<open>Reflect.get(target, p, receiver)\<close>; on a target that is itself a
  proxy of this handler both go through its traps. \<open>window\<close> is the ambient global.
\<close>

fun has_in :: "heap \<Rightarrow> jsval \<Rightarrow> propkey \<Rightarrow> bool" where
  "has_in h (JObj a) p = (find_prop h a p \<noteq> None)"
| "has_in h (JFun a) p = (find_prop h a p \<noteq> None)"
| "has_in h (JProxy t) p = True"
| "has_in h _ p = False"

function handler_get :: "heap \<Rightarrow> jsval \<Rightarrow> jsval \<Rightarrow> propkey \<Rightarrow> exn + jsval"
  and Reflect_get :: "heap \<Rightarrow> jsval \<Rightarrow> jsval \<Rightarrow> propkey \<Rightarrow> exn + jsval" where
  "handler_get h window target p =
     (if p = Unscopables then Inr JUndefined
      else if has_in h target p then
        (case Reflect_get h window target p of
           Inl e \<Rightarrow> Inl e
         | Inr val \<Rightarrow>
             if val \<noteq> window then
               (if typeof val = ''object'' then new_Proxy val else Inr val)
             else Inl (denied_access p))
      else Inl (denied_access p))"
| "Reflect_get h window (JObj a) p = Inr (prop_value h a p)"
| "Reflect_get h window (JFun a) p = Inr (prop_value h a p)"
| "Reflect_get h window (JProxy t) p = handler_get h window t p"
| "Reflect_get h window JUndefined p = Inl TypeError"
| "Reflect_get h window JNull p = Inl TypeError"
| "Reflect_get h window (JBool b) p = Inl TypeError"
| "Reflect_get h window (JNum n) p = Inl TypeError"
| "Reflect_get h window (JStr s) p = Inl TypeError"
  by pat_completeness auto
termination
  by (relation "measure (\<lambda>x. case x of
         Inl (h, w, t, p) \<Rightarrow> 2 * size t + 1
       | Inr (h, w, t, p) \<Rightarrow> 2 * size t)") auto

declare handler_get.simps [simp del]

text \<open>
  The \<open>set\<close> trap. Its third parameter, which the source calls \<open>receiver\<close>, is the
  value being assigned. \<open>sandbox\<close> is the address of the container.
\<close>

function handler_set :: "heap \<Rightarrow> nat \<Rightarrow> jsval \<Rightarrow> propkey \<Rightarrow> jsval \<Rightarrow> exn + bool \<times> heap"
  and Reflect_set :: "heap \<Rightarrow> nat \<Rightarrow> jsval \<Rightarrow> propkey \<Rightarrow> jsval \<Rightarrow> exn + bool \<times> heap" where
  "handler_set h sandbox target p receiver =
     (if target = prop_value h sandbox (Name ''plugin'') \<and> p = Name ''exports''
      then Reflect_set h sandbox target p receiver
      else Inl (denied_set p))"
| "Reflect_set h sandbox (JObj a) p v =
     (case h a of
        None \<Rightarrow> Inr (False, h)
      | Some ob \<Rightarrow> Inr (True, h(a \<mapsto> ob\<lparr>own := AList.update p v (own ob)\<rparr>)))"
| "Reflect_set h sandbox (JFun a) p v =
     (case h a of
        None \<Rightarrow> Inr (False, h)
      | Some ob \<Rightarrow> Inr (True, h(a \<mapsto> ob\<lparr>own := AList.update p v (own ob)\<rparr>)))"
| "Reflect_set h sandbox (JProxy t) p v = handler_set h sandbox t p v"
| "Reflect_set h sandbox JUndefined p v = Inl TypeError"
| "Reflect_set h sandbox JNull p v = Inl TypeError"
| "Reflect_set h sandbox (JBool b) p v = Inl TypeError"
| "Reflect_set h sandbox (JNum n) p v = Inl TypeError"
| "Reflect_set h sandbox (JStr s) p v = Inl TypeError"
  by pat_completeness auto
termination
  by (relation "measure (\<lambda>x. case x of
         Inl (h, s, t, p, v) \<Rightarrow> 2 * size t + 1
       | Inr (h, s, t, p, v) \<Rightarrow> 2 * size t)") auto

declare handler_set.simps [simp del]

text \<open>
  A member write \<open>v[p] = x\<close> a script issues on a value \<open>v\<close> it holds. On a proxy of the
  handler the \<open>set\<close> trap runs on the proxy's target. On an object or a function the
  script holds unwrapped the write is an ordinary one and no trap is involved (the
  objects of the heap are extensible and their data properties writable). On
  \<open>undefined\<close> and \<open>null\<close> it is a \<open>TypeError\<close>, on the other primitives nothing is
  stored.
\<close>

fun script_write :: "heap \<Rightarrow> nat \<Rightarrow> jsval \<Rightarrow> propkey \<Rightarrow> jsval \<Rightarrow> exn + bool \<times> heap" where
  "script_write h sandbox (JProxy target) p x = handler_set h sandbox target p x"
| "script_write h sandbox (JObj a) p x = Reflect_set h sandbox (JObj a) p x"
| "script_write h sandbox (JFun a) p x = Reflect_set h sandbox (JFun a) p x"
| "script_write h sandbox JUndefined p x = Inl TypeError"
| "script_write h sandbox JNull p x = Inl TypeError"
| "script_write h sandbox (JBool b) p x = Inr (False, h)"
| "script_write h sandbox (JNum n) p x = Inr (False, h)"
| "script_write h sandbox (JStr s) p x = Inr (False, h)"

text \<open>The function \<open>runScript\<close> returns: it reads \<open>sandbox.plugin.exports\<close>.\<close>

definition read_exports :: "heap \<Rightarrow> nat \<Rightarrow> jsval" where
  "read_exports h sandbox =
     (case prop_value h sandbox (Name ''plugin'') of
        JObj a \<Rightarrow> prop_value h a (Name ''exports'')
      | JFun a \<Rightarrow> prop_value h a (Name ''exports'')
      | _ \<Rightarrow> JUndefined)"

text \<open>
  The heap \<open>runScript\<close> starts from. Addresses: 0 the ambient global, 1
  \<open>Object.prototype\<close>, 2 \<open>Object\<close>, 3 \<open>Function.prototype\<close>, 4 \<open>Function\<close>, 10 the
  container \<open>sandbox\<close>, 11 \<open>sandbox.plugin\<close>, 12 the \<open>PluginType\<close> enum object, 13 the
  console, 14 \<open>Math\<close>, 15 \<open>JSON\<close>, 16 \<open>Timer\<close>, from 20 the functions of the container.
  The members of the runtime's own objects are a fragment of the standard ones.
\<close>

definition sandbox_own :: "(propkey \<times> jsval) list" where
  "sandbox_own = [
     (Name ''plugin'', JObj 11),
     (Name ''console'', JObj 13),
     (Name ''String'', JFun 20),
     (Name ''Number'', JFun 21),
     (Name ''Boolean'', JFun 22),
     (Name ''Date'', JFun 23),
     (Name ''Math'', JObj 14),
     (Name ''RegExp'', JFun 24),
     (Name ''JSON'', JObj 15),
     (Name ''Promise'', JFun 25),
     (Name ''isNaN'', JFun 26),
     (Name ''isNull'', JFun 27),
     (Name ''isUndefined'', JFun 28),
     (Name ''isString'', JFun 29),
     (Name ''isNumber'', JFun 30),
     (Name ''isArray'', JFun 31),
     (Name ''isDate'', JFun 32),
     (Name ''isFunction'', JFun 33),
     (Name ''Timer'', JObj 16),
     (Name ''URLSearchParams'', JFun 34)]"

definition initial_heap :: heap where
  "initial_heap = map_of [
     (0, \<lparr>own = [(Name ''window'', JObj 0)], chain = [1]\<rparr>),
     (1, \<lparr>own = [(Name ''constructor'', JFun 2), (Name ''toString'', JFun 5),
                (Name ''hasOwnProperty'', JFun 6), (Name ''valueOf'', JFun 7)], chain = []\<rparr>),
     (2, \<lparr>own = [(Name ''prototype'', JObj 1)], chain = [3, 1]\<rparr>),
     (3, \<lparr>own = [(Name ''constructor'', JFun 4), (Name ''call'', JFun 8),
                (Name ''apply'', JFun 9)], chain = [1]\<rparr>),
     (4, \<lparr>own = [(Name ''prototype'', JFun 3)], chain = [3, 1]\<rparr>),
     (10, \<lparr>own = sandbox_own, chain = [1]\<rparr>),
     (11, \<lparr>own = [(Name ''exports'', JNull), (Name ''type'', JObj 12)], chain = [1]\<rparr>),
     (12, \<lparr>own = [(Name ''0'', JStr ''BOOK_SOURCE''), (Name ''1'', JStr ''BOOK_STORE''),
                 (Name ''BOOK_SOURCE'', JNum 0), (Name ''BOOK_STORE'', JNum 1),
                 (Name ''valueOf'', JFun 35)], chain = [1]\<rparr>),
     (13, \<lparr>own = [(Name ''log'', JFun 36), (Name ''info'', JFun 37), (Name ''error'', JFun 38),
                 (Name ''warn'', JFun 39), (Name ''debug'', JFun 40)], chain = [1]\<rparr>),
     (14, \<lparr>own = [(Name ''PI'', JNum 3), (Name ''floor'', JFun 41)], chain = [1]\<rparr>),
     (15, \<lparr>own = [(Name ''parse'', JFun 42), (Name ''stringify'', JFun 43)], chain = [1]\<rparr>),
     (16, \<lparr>own = [(Name ''timeout'', JFun 44), (Name ''interval'', JFun 45)], chain = [1]\<rparr>),
     (20, \<lparr>own = [(Name ''prototype'', JObj 46)], chain = [3, 1]\<rparr>)]"

section \<open>Static code validation\<close>

text \<open>
  A node of the tree the embedded parser returns, as far as the walker reads it:
  \<open>node.name\<close>, \<open>node.start.value\<close>, \<open>node.start.line\<close>, and the nodes below it.
\<close>

datatype ast_node =
  AST_Node (node_name: jsval) (start_value: jsval) (start_line: nat) (children: "ast_node list")

text \<open>The test of the visitor.\<close>

definition is_import :: "ast_node \<Rightarrow> bool" where
  "is_import node =
     ((isString (node_name node) \<and> node_name node = JStr ''import'')
      \<or> (isString (start_value node) \<and> start_value node = JStr ''import''))"

text \<open>
  \<open>ast.walk(new TreeWalker(visitor))\<close>: the visitor runs on a node before the nodes below
  it, in source order, and its \<open>throw\<close> ends the walk.
\<close>

fun walk :: "ast_node \<Rightarrow> string + unit"
  and walk_list :: "ast_node list \<Rightarrow> string + unit" where
  "walk (AST_Node n v l cs) =
     (if is_import (AST_Node n v l cs)
      then Inl (''Cannot import modules, in the '' @ show_nat l @ '' line'')
      else walk_list cs)"
| "walk_list [] = Inr ()"
| "walk_list (c # cs) = (case walk c of Inl e \<Rightarrow> Inl e | Inr _ \<Rightarrow> walk_list cs)"

text \<open>All nodes of a tree, and whether some node of it is a module-import construct.\<close>

fun nodes :: "ast_node \<Rightarrow> ast_node list" where
  "nodes (AST_Node n v l cs) = AST_Node n v l cs # concat (map nodes cs)"

definition contains_import :: "ast_node \<Rightarrow> bool" where
  "contains_import ast = list_ex is_import (nodes ast)"

section \<open>Collaborators and state\<close>

text \<open>
  \<open>PluginImportOptions\<close>: every field is optional, \<open>None\<close> standing for a missing one.
\<close>

record PluginImportOptions =
  force :: "bool option"
  minify :: "bool option"
  debug :: "bool option"
  enable :: "bool option"

text \<open>Truthiness of \<open>options?.f\<close>.\<close>

definition truthy :: "(PluginImportOptions \<Rightarrow> bool option) \<Rightarrow> PluginImportOptions option \<Rightarrow> bool" where
  "truthy f options = (case options of None \<Rightarrow> False | Some opts \<Rightarrow> f opts = Some True)"

datatype plugin_instance = Instance nat

text \<open>
  What lies outside the source and is taken as given: the file system, the embedded
  parser and printer (\<open>UGLIFY_JS\<close>), the run of a script in the sandbox with the value it
  leaves in \<open>plugin.exports\<close> (\<open>None\<close> for a falsy one), the constructor of the exported
  class, and whether the persistence collaborator rejects a \<open>put\<close> or answers \<open>getAll\<close>
  with null. A failure is the message it carries.
\<close>

record host =
  existsSync :: "string \<Rightarrow> bool"
  readFileSync :: "string \<Rightarrow> string + string"
  parse :: "string \<Rightarrow> string + ast_node"
  print_to_string :: "ast_node \<Rightarrow> string + string"
  runScript :: "string \<Rightarrow> string + PluginInterface option"
  construct :: "PluginInterface \<Rightarrow> string + plugin_instance"
  put_error :: "string \<times> string \<times> bool \<Rightarrow> string option"
  getAll_null :: bool

text \<open>An entry of \<open>pluginsPool\<close>; its fields \<open>enable\<close> and \<open>instance\<close> are written \<open>p_enable\<close> and
  \<open>p_instance\<close>.\<close>

record pool_entry =
  p_enable :: bool
  props :: PluginBaseProps
  p_instance :: "plugin_instance option"

text \<open>
  The state: \<open>pluginsPool\<close> and \<open>pluginsStore\<close> (the ids that have a store) in insertion
  order, the persisted records \<open>(id, jscode, enable)\<close> of \<open>GLOBAL_DB.store.pluginsJSCode\<close>
  keyed by id, the scripts that were run in the sandbox, and the load statistics
  \<open>(id, error)\<close>.
\<close>

record state =
  pluginsPool :: "(string \<times> pool_entry) list"
  pluginsStore :: "string list"
  pluginsJSCode :: "(string \<times> string \<times> bool) list"
  executed :: "string list"
  loadStats :: "(string \<times> string option) list"

text \<open>
  Modelled from the spec: \<open>errorHandler\<close> of \<open>src/core/utils\<close>, which is imported by the
  source and not part of it; it rejects with the failure unwrapped to its message.
\<close>

definition errorHandler :: "string \<Rightarrow> string" where
  "errorHandler e = e"

text \<open>
  Modelled from the spec: the persistence collaborator (\<open>getById\<close>, \<open>getAll\<close>, \<open>put\<close>,
  \<open>remove\<close>) as a keyed store; a rejected \<open>put\<close> stores nothing.
\<close>

definition getById :: "string \<Rightarrow> state \<Rightarrow> (string \<times> string \<times> bool) option" where
  "getById i s = (case map_of (pluginsJSCode s) i of None \<Rightarrow> None | Some r \<Rightarrow> Some (i, r))"

definition getAll :: "state \<Rightarrow> (string \<times> string \<times> bool) list" where
  "getAll s = pluginsJSCode s"

definition put :: "host \<Rightarrow> string \<times> string \<times> bool \<Rightarrow> state \<Rightarrow> (string + unit) \<times> state" where
  "put env r s =
     (case put_error env r of
        Some e \<Rightarrow> (Inl e, s)
      | None \<Rightarrow> (Inr (), s\<lparr>pluginsJSCode := AList.update (fst r) (snd r) (pluginsJSCode s)\<rparr>))"

definition remove :: "string \<Rightarrow> state \<Rightarrow> state" where
  "remove i s = s\<lparr>pluginsJSCode := AList.delete i (pluginsJSCode s)\<rparr>"

text \<open>
  Modelled from the spec: \<open>chunkArray\<close> of \<open>src/core/utils\<close>, which is imported by the
  source and not part of it; consecutive chunks of the given size, which the settings keep
  at 1 or more.
\<close>

fun chunkArray :: "'a list \<Rightarrow> nat \<Rightarrow> 'a list list" where
  "chunkArray xs n =
     (if n = 0 \<or> xs = [] then [] else take n xs # chunkArray (drop n xs) n)"

declare chunkArray.simps [simp del]

section \<open>The registry\<close>

definition getPluginStore :: "string \<Rightarrow> state \<Rightarrow> state" where
  "getPluginStore i s =
     (if i \<in> set (pluginsStore s) then s else s\<lparr>pluginsStore := pluginsStore s @ [i]\<rparr>)"

text \<open>\<open>pluginExports\<close>: one run of the script in the sandbox.\<close>

definition pluginExports :: "host \<Rightarrow> string \<Rightarrow> state \<Rightarrow> (string + PluginInterface) \<times> state" where
  "pluginExports env jscode s =
     (let s1 = s\<lparr>executed := executed s @ [jscode]\<rparr> in
      case runScript env jscode of
        Inl e \<Rightarrow> (Inl (errorHandler e), s1)
      | Inr None \<Rightarrow> (Inl (errorHandler ''Cannot find plugin''), s1)
      | Inr (Some exports) \<Rightarrow> (Inr exports, s1))"

text \<open>The body of the \<open>if\<close> at the head of \<open>check\<close>: parse, walk, rewrite.\<close>

definition validate :: "host \<Rightarrow> string \<Rightarrow> string + string" where
  "validate env jscode =
     (case parse env jscode of
        Inl e \<Rightarrow> Inl e
      | Inr ast \<Rightarrow>
          (case walk ast of
             Inl e \<Rightarrow> Inl e
           | Inr _ \<Rightarrow> print_to_string env ast))"

definition check ::
  "host \<Rightarrow> string \<Rightarrow> PluginImportOptions option \<Rightarrow> state
     \<Rightarrow> (string + PluginInterface \<times> string) \<times> state" where
  "check env jscode options s =
     (case (if options = None \<or> truthy minify options then validate env jscode else Inr jscode) of
        Inl e \<Rightarrow> (Inl (errorHandler e), s)
      | Inr code \<Rightarrow>
          (case pluginExports env code s of
             (Inl e, s1) \<Rightarrow> (Inl (errorHandler e), s1)
           | (Inr plugin, s1) \<Rightarrow>
               (case isPlugin_throws plugin of
                  Inl e \<Rightarrow> (Inl (errorHandler e), s1)
                | Inr _ \<Rightarrow>
                    if \<not> truthy force options \<and> map_of (pluginsPool s1) (str_of (ID plugin)) \<noteq> None
                    then (Inl (errorHandler (''Plugin exists ID:'' @ str_of (ID plugin))), s1)
                    else (Inr (plugin, code), s1))))"

text \<open>The first statements of \<open>import\<close>: which source text is meant.\<close>

definition resolve :: "host \<Rightarrow> string option \<Rightarrow> string option \<Rightarrow> string + string" where
  "resolve env pluginFilePath jscode =
     (case pluginFilePath of
        Some path \<Rightarrow>
          if \<not> existsSync env path
          then Inl (''Plugin file '' @ [CHR 0x22] @ path @ [CHR 0x22] @ '' not found'')
          else readFileSync env path
      | None \<Rightarrow>
          (case jscode of
             None \<Rightarrow> Inl ''Plugin jscode not found''
           | Some code \<Rightarrow> Inr code))"

text \<open>
  \<open>import\<close> up to the construction of the instance: source resolution, \<open>check\<close>, the
  store of the plugin, \<open>new PluginClass\<close>.
\<close>

definition import_prepare ::
  "host \<Rightarrow> string option \<Rightarrow> string option \<Rightarrow> PluginImportOptions option \<Rightarrow> state
     \<Rightarrow> (string + PluginInterface \<times> string \<times> plugin_instance) \<times> state" where
  "import_prepare env pluginFilePath jscode options s =
     (case resolve env pluginFilePath jscode of
        Inl e \<Rightarrow> (Inl (errorHandler e), s)
      | Inr js \<Rightarrow>
          (case check env js options s of
             (Inl e, s1) \<Rightarrow> (Inl (errorHandler e), s1)
           | (Inr (PluginClass, code), s1) \<Rightarrow>
               (let s2 = getPluginStore (str_of (ID PluginClass)) s1 in
                case construct env PluginClass of
                  Inl e \<Rightarrow> (Inl (errorHandler e), s2)
                | Inr pluginClass \<Rightarrow> (Inr (PluginClass, code, pluginClass), s2))))"

text \<open>\<open>import\<close>: then the \<open>put\<close> unless \<open>debug\<close>, the entry of \<open>pluginsPool\<close>, the instance.\<close>

definition import_plugin ::
  "host \<Rightarrow> string option \<Rightarrow> string option \<Rightarrow> PluginImportOptions option \<Rightarrow> state
     \<Rightarrow> (string + plugin_instance) \<times> state" where
  "import_plugin env pluginFilePath jscode options s =
     (case import_prepare env pluginFilePath jscode options s of
        (Inl e, s2) \<Rightarrow> (Inl e, s2)
      | (Inr (PluginClass, code, pluginClass), s2) \<Rightarrow>
          (case (if \<not> truthy debug options
                 then put env (str_of (ID PluginClass), code, truthy enable options) s2
                 else (Inr (), s2)) of
             (Inl e, s3) \<Rightarrow> (Inl (errorHandler e), s3)
           | (Inr _, s3) \<Rightarrow>
               (Inr pluginClass,
                s3\<lparr>pluginsPool := AList.update (str_of (ID PluginClass))
                      \<lparr>p_enable = truthy enable options,
                       props = \<lparr>ID = ID PluginClass, TYPE' = TYPE' PluginClass,
                                GROUP = GROUP PluginClass, NAME = NAME PluginClass,
                                VERSION = VERSION PluginClass,
                                VERSION_CODE = VERSION_CODE PluginClass,
                                PLUGIN_FILE_URL = PLUGIN_FILE_URL PluginClass,
                                BASE_URL = BASE_URL PluginClass\<rparr>,
                       p_instance = (if truthy enable options then Some pluginClass else None)\<rparr>
                      (pluginsPool s3)\<rparr>)))"

definition importJSCode ::
  "host \<Rightarrow> string \<Rightarrow> PluginImportOptions option \<Rightarrow> state \<Rightarrow> (string + plugin_instance) \<times> state" where
  "importJSCode env jscode options s = import_plugin env None (Some jscode) options s"

definition importPluginFile ::
  "host \<Rightarrow> string \<Rightarrow> PluginImportOptions option \<Rightarrow> state \<Rightarrow> (string + plugin_instance) \<times> state" where
  "importPluginFile env pluginFilePath options s = import_plugin env (Some pluginFilePath) None options s"

definition disable :: "host \<Rightarrow> string \<Rightarrow> state \<Rightarrow> (string + unit) \<times> state" where
  "disable env i s =
     (case (getById i s, map_of (pluginsPool s) i) of
        (Some (pid, jscode, en), Some p) \<Rightarrow>
          (case put env (pid, jscode, False) s of
             (Inl e, s1) \<Rightarrow> (Inl (errorHandler e), s1)
           | (Inr _, s1) \<Rightarrow>
               (Inr (), s1\<lparr>pluginsPool := AList.update i
                     \<lparr>p_enable = False, props = props p, p_instance = None\<rparr> (pluginsPool s1)\<rparr>))
      | _ \<Rightarrow> (Inl (errorHandler (''Cannot find plugin, id:'' @ i)), s))"

definition enable_plugin :: "host \<Rightarrow> string \<Rightarrow> state \<Rightarrow> (string + unit) \<times> state" where
  "enable_plugin env i s =
     (case (getById i s, map_of (pluginsPool s) i) of
        (Some (pid, jscode, en), Some p) \<Rightarrow>
          (case put env (pid, jscode, True) s of
             (Inl e, s1) \<Rightarrow> (Inl (errorHandler e), s1)
           | (Inr _, s1) \<Rightarrow>
               (case import_plugin env None (Some jscode)
                       (Some \<lparr>force = Some True, minify = Some True, debug = None,
                              enable = Some True\<rparr>) s1 of
                  (Inl e, s2) \<Rightarrow> (Inl (errorHandler e), s2)
                | (Inr _, s2) \<Rightarrow> (Inr (), s2)))
      | _ \<Rightarrow> (Inl (errorHandler (''Cannot find plugin, id:'' @ i)), s))"

definition delete :: "string \<Rightarrow> state \<Rightarrow> state" where
  "delete i s = (let s1 = remove i s in s1\<lparr>pluginsPool := AList.delete i (pluginsPool s1)\<rparr>)"

text \<open>
  \<open>PluginFilter\<close>: a field is missing (\<open>None\<close>), present as \<open>undefined\<close> (\<open>Some None\<close>) or
  present with a value; the spread over the defaults keeps every present field.
\<close>

record PluginFilter =
  f_enable :: "bool option option"
  f_group :: "string option option"

definition getPluginsByType ::
  "state \<Rightarrow> PluginType \<Rightarrow> PluginFilter option \<Rightarrow> (PluginBaseProps \<times> plugin_instance) list" where
  "getPluginsByType s type flt =
     (let filter_enable = (case flt of None \<Rightarrow> Some True
                           | Some f \<Rightarrow> (case f_enable f of None \<Rightarrow> Some True | Some v \<Rightarrow> v));
          filter_group = (case flt of None \<Rightarrow> Some []
                          | Some f \<Rightarrow> (case f_group f of None \<Rightarrow> Some [] | Some v \<Rightarrow> v))
      in map (\<lambda>e. (props e, the (p_instance e)))
           (filter (\<lambda>e. p_instance e \<noteq> None)
              (filter (\<lambda>e. Some (p_enable e) = filter_enable)
                 (filter (\<lambda>e.
                      if TYPE' (props e) \<noteq> JNum (type_code type) then False
                      else if (case filter_group of None \<Rightarrow> False
                               | Some g \<Rightarrow> g \<noteq> [] \<and> JStr g \<noteq> GROUP (props e)) then False
                      else True)
                    (map snd (pluginsPool s))))))"

section \<open>Bulk import\<close>

text \<open>
  \<open>importPool\<close> starts every import of a chunk before any of them has settled, so an
  import is cut at its \<open>await\<close>s. What is left of one call of \<open>import\<close> with a given
  source text: \<open>check\<close> waiting for \<open>pluginExports\<close>, which has run the script and
  settled with a failure or the exported value; \<open>import\<close> waiting for \<open>check\<close>, which has
  settled; \<open>import\<close> waiting for the \<open>put\<close> it has issued; the \<open>put\<close> settled and
  \<open>import\<close> not yet resumed; and the promise of \<open>import\<close> settled.
\<close>

datatype import_task =
    AwaitExports "PluginImportOptions option" string "string + PluginInterface"
  | AwaitCheck "PluginImportOptions option" "string + PluginInterface \<times> string"
  | AwaitPut "PluginImportOptions option" PluginInterface string plugin_instance
  | PutSettled "PluginImportOptions option" PluginInterface plugin_instance "string + unit"
  | Settled "string + plugin_instance"

text \<open>The \<open>pluginsPool.set\<close> at the end of \<open>import\<close>.\<close>

definition pool_set ::
  "PluginImportOptions option \<Rightarrow> PluginInterface \<Rightarrow> plugin_instance \<Rightarrow> state \<Rightarrow> state" where
  "pool_set options PluginClass pluginClass s =
     s\<lparr>pluginsPool := AList.update (str_of (ID PluginClass))
          \<lparr>p_enable = truthy enable options,
           props = \<lparr>ID = ID PluginClass, TYPE' = TYPE' PluginClass,
                    GROUP = GROUP PluginClass, NAME = NAME PluginClass,
                    VERSION = VERSION PluginClass,
                    VERSION_CODE = VERSION_CODE PluginClass,
                    PLUGIN_FILE_URL = PLUGIN_FILE_URL PluginClass,
                    BASE_URL = BASE_URL PluginClass\<rparr>,
           p_instance = (if truthy enable options then Some pluginClass else None)\<rparr>
          (pluginsPool s)\<rparr>"

text \<open>
  The call \<open>import(null, jscode, options)\<close> up to its first \<open>await\<close>: the validator and
  the executor of the promise of \<open>pluginExports\<close>, which runs the script, are synchronous.
\<close>

definition import_start ::
  "host \<Rightarrow> string \<Rightarrow> PluginImportOptions option \<Rightarrow> state \<Rightarrow> import_task \<times> state" where
  "import_start env jscode options s =
     (case (if options = None \<or> truthy minify options then validate env jscode else Inr jscode) of
        Inl e \<Rightarrow> (AwaitCheck options (Inl (errorHandler e)), s)
      | Inr code \<Rightarrow>
          (case pluginExports env code s of
             (r, s1) \<Rightarrow> (AwaitExports options code r, s1)))"

text \<open>
  One resumption: the code of \<open>check\<close> after \<open>await this.pluginExports\<close>; the code of
  \<open>import\<close> after \<open>await this.check\<close> up to the \<open>put\<close> it issues; the \<open>put\<close> taking
  effect; the code of \<open>import\<close> after \<open>await put\<close>.
\<close>

fun import_resume :: "host \<Rightarrow> import_task \<Rightarrow> state \<Rightarrow> import_task \<times> state" where
  "import_resume env (AwaitExports options code r) s =
     (case r of
        Inl e \<Rightarrow> (AwaitCheck options (Inl (errorHandler e)), s)
      | Inr plugin \<Rightarrow>
          (case isPlugin_throws plugin of
             Inl e \<Rightarrow> (AwaitCheck options (Inl (errorHandler e)), s)
           | Inr _ \<Rightarrow>
               if \<not> truthy force options \<and> map_of (pluginsPool s) (str_of (ID plugin)) \<noteq> None
               then (AwaitCheck options
                       (Inl (errorHandler (''Plugin exists ID:'' @ str_of (ID plugin)))), s)
               else (AwaitCheck options (Inr (plugin, code)), s)))"
| "import_resume env (AwaitCheck options r) s =
     (case r of
        Inl e \<Rightarrow> (Settled (Inl (errorHandler e)), s)
      | Inr (PluginClass, code) \<Rightarrow>
          (let s2 = getPluginStore (str_of (ID PluginClass)) s in
           case construct env PluginClass of
             Inl e \<Rightarrow> (Settled (Inl (errorHandler e)), s2)
           | Inr pluginClass \<Rightarrow>
               if \<not> truthy debug options
               then (AwaitPut options PluginClass code pluginClass, s2)
               else (Settled (Inr pluginClass), pool_set options PluginClass pluginClass s2)))"
| "import_resume env (AwaitPut options PluginClass code pluginClass) s =
     (case put env (str_of (ID PluginClass), code, truthy enable options) s of
        (r, s3) \<Rightarrow> (PutSettled options PluginClass pluginClass r, s3))"
| "import_resume env (PutSettled options PluginClass pluginClass r) s =
     (case r of
        Inl e \<Rightarrow> (Settled (Inl (errorHandler e)), s)
      | Inr _ \<Rightarrow> (Settled (Inr pluginClass), pool_set options PluginClass pluginClass s))"
| "import_resume env (Settled r) s = (Settled r, s)"

text \<open>
  The promise \<open>importPool\<close> builds for one record: the import still running; its
  \<open>catch\<close> callback done and the \<open>remove\<close> it issued, which nothing awaits, still
  pending; and nothing left to do.
\<close>

datatype pool_task =
    Importing "string \<times> string \<times> bool" import_task
  | Removing "string \<times> string \<times> bool"
  | Finished "string \<times> string \<times> bool"

fun record_of :: "pool_task \<Rightarrow> string \<times> string \<times> bool" where
  "record_of (Importing r t) = r"
| "record_of (Removing r) = r"
| "record_of (Finished r) = r"

fun is_Importing :: "pool_task \<Rightarrow> bool" where
  "is_Importing (Importing r t) = True"
| "is_Importing _ = False"

fun is_Finished :: "pool_task \<Rightarrow> bool" where
  "is_Finished (Finished r) = True"
| "is_Finished _ = False"

text \<open>
  One step of such a promise: a resumption of the import; on a settled import the
  \<open>then\<close> callback, which pushes the success, or the \<open>catch\<close> callback, which pushes the
  failure with its message and issues the \<open>remove\<close>; the \<open>remove\<close> taking effect.
\<close>

fun task_step :: "host \<Rightarrow> pool_task \<Rightarrow> state \<Rightarrow> pool_task \<times> state" where
  "task_step env (Importing r (Settled (Inr x))) s =
     (Finished r, s\<lparr>loadStats := loadStats s @ [(fst r, None)]\<rparr>)"
| "task_step env (Importing r (Settled (Inl e))) s =
     (Removing r, s\<lparr>loadStats := loadStats s @ [(fst r, Some e)]\<rparr>)"
| "task_step env (Importing r t) s =
     (case import_resume env t s of (t', s') \<Rightarrow> (Importing r t', s'))"
| "task_step env (Removing r) s = (Finished r, remove (fst r) s)"
| "task_step env (Finished r) s = (Finished r, s)"

text \<open>The options \<open>importPool\<close> passes with a record's flag.\<close>

definition bulk_options :: "bool \<Rightarrow> PluginImportOptions" where
  "bulk_options en = \<lparr>force = Some True, minify = Some False, debug = None, enable = Some en\<rparr>"

text \<open>
  The inner \<open>for\<close> loop: every record of the chunk has its import started, in order, with
  these options.
\<close>

fun start_chunk ::
  "host \<Rightarrow> (string \<times> string \<times> bool) list \<Rightarrow> state \<Rightarrow> pool_task list \<times> state" where
  "start_chunk env [] s = ([], s)"
| "start_chunk env ((i, jscode, en) # arr) s =
     (case import_start env jscode (Some (bulk_options en)) s of
        (t, s1) \<Rightarrow>
          (case start_chunk env arr s1 of
             (ts, s2) \<Rightarrow> (Importing (i, jscode, en) t # ts, s2)))"

text \<open>
  A configuration of \<open>importPool\<close>: the promises built so far, the chunks still to be
  started, and the state. What happens next is a choice of the scheduler: promise \<open>k\<close>
  takes a step, or, once every promise of the chunks so far has had its callback
  (\<open>await Promise.all(ps)\<close>), the next chunk is started.
\<close>

type_synonym config = "pool_task list \<times> (string \<times> string \<times> bool) list list \<times> state"

datatype choice = Resume nat | NextChunk

fun pool_step :: "host \<Rightarrow> choice \<Rightarrow> config \<Rightarrow> config option" where
  "pool_step env (Resume k) (tasks, todo, s) =
     (if k < length tasks \<and> \<not> is_Finished (tasks ! k)
      then (case task_step env (tasks ! k) s of (t', s') \<Rightarrow> Some (tasks[k := t'], todo, s'))
      else None)"
| "pool_step env NextChunk (tasks, [], s) = None"
| "pool_step env NextChunk (tasks, arr # todo, s) =
     (if list_ex is_Importing tasks then None
      else (case start_chunk env arr s of (started, s') \<Rightarrow> Some (tasks @ started, todo, s')))"

text \<open>A run under a schedule; \<open>None\<close> when the schedule asks for a step that cannot be taken.\<close>

fun pool_run :: "host \<Rightarrow> choice list \<Rightarrow> config \<Rightarrow> config option" where
  "pool_run env [] cfg = Some cfg"
| "pool_run env (c # cs) cfg =
     (case pool_step env c cfg of None \<Rightarrow> None | Some cfg' \<Rightarrow> pool_run env cs cfg')"

text \<open>
  \<open>importPool\<close> at its start: no promise yet, and the chunks of the persisted records
  (none when the collaborator answers null).
\<close>

definition importPool :: "host \<Rightarrow> nat \<Rightarrow> state \<Rightarrow> config" where
  "importPool env threadsNumber s =
     ([], if getAll_null env then [] else chunkArray (getAll s) threadsNumber, s)"

text \<open>
  The promise of \<open>importPool\<close> has settled when no chunk is left and every promise has
  had its callback; nothing is left to happen when every issued \<open>remove\<close> has taken
  effect as well.
\<close>

fun pool_settled :: "config \<Rightarrow> bool" where
  "pool_settled (tasks, todo, s) = (todo = [] \<and> \<not> list_ex is_Importing tasks)"

fun pool_quiescent :: "config \<Rightarrow> bool" where
  "pool_quiescent (tasks, todo, s) = (todo = [] \<and> list_all is_Finished tasks)"

text \<open>A bound on the steps a configuration still has in it.\<close>

fun import_rank :: "import_task \<Rightarrow> nat" where
  "import_rank (AwaitExports options code r) = 4"
| "import_rank (AwaitCheck options r) = 3"
| "import_rank (AwaitPut options PluginClass code pluginClass) = 2"
| "import_rank (PutSettled options PluginClass pluginClass r) = 1"
| "import_rank (Settled r) = 0"

fun task_rank :: "pool_task \<Rightarrow> nat" where
  "task_rank (Importing r t) = 2 + import_rank t"
| "task_rank (Removing r) = 1"
| "task_rank (Finished r) = 0"

fun pool_measure :: "config \<Rightarrow> nat" where
  "pool_measure (tasks, todo, s) =
     sum_list (map task_rank tasks) + sum_list (map (\<lambda>arr. 1 + 7 * length arr) todo)"

text \<open>
  The outcome \<open>importPool\<close> is to record for a persisted record: its id, and the message
  when its import fails.
\<close>

definition record_outcome ::
  "host \<Rightarrow> state \<Rightarrow> string \<times> string \<times> bool \<Rightarrow> string \<times> string option" where
  "record_outcome env s r =
     (case r of (i, c, en) \<Rightarrow>
        (i, case fst (importJSCode env c (Some (bulk_options en)) s) of
              Inl e \<Rightarrow> Some e
            | Inr _ \<Rightarrow> None))"

text \<open>
  What holds of the import of the record \<open>(i, c, en)\<close> at each of its stages: the values
  it carries are those the host gives for the script \<open>c\<close>.
\<close>

fun task_ok :: "host \<Rightarrow> state \<Rightarrow> string \<times> string \<times> bool \<Rightarrow> import_task \<Rightarrow> bool" where
  "task_ok env s0 (i, c, en) (AwaitExports options code r) =
     (options = Some (bulk_options en) \<and> code = c
      \<and> r = (case runScript env c of
                Inl e \<Rightarrow> Inl e
              | Inr None \<Rightarrow> Inl ''Cannot find plugin''
              | Inr (Some P) \<Rightarrow> Inr P))"
| "task_ok env s0 (i, c, en) (AwaitCheck options r) =
     (options = Some (bulk_options en)
      \<and> r = (case runScript env c of
                Inl e \<Rightarrow> Inl e
              | Inr None \<Rightarrow> Inl ''Cannot find plugin''
              | Inr (Some P) \<Rightarrow>
                  (case isPlugin_throws P of Inl e \<Rightarrow> Inl e | Inr _ \<Rightarrow> Inr (P, c))))"
| "task_ok env s0 (i, c, en) (AwaitPut options P code pc) =
     (options = Some (bulk_options en) \<and> code = c
      \<and> runScript env c = Inr (Some P) \<and> isPlugin_throws P = Inr ()
      \<and> construct env P = Inr pc)"
| "task_ok env s0 (i, c, en) (PutSettled options P pc r) =
     (options = Some (bulk_options en)
      \<and> runScript env c = Inr (Some P) \<and> isPlugin_throws P = Inr ()
      \<and> construct env P = Inr pc
      \<and> r = (case put_error env (str_of (ID P), c, en) of Some e \<Rightarrow> Inl e | None \<Rightarrow> Inr ()))"
| "task_ok env s0 (i, c, en) (Settled r) =
     (r = fst (importJSCode env c (Some (bulk_options en)) s0))"

text \<open>
  What holds of a promise of \<open>importPool\<close> in a state with the persisted records \<open>db\<close>:
  a running import is at a stage as above, and once nothing is left of the promise of a
  record whose import fails, no record is persisted under its id.
\<close>

fun promise_ok ::
  "host \<Rightarrow> state \<Rightarrow> (string \<times> string \<times> bool) list \<Rightarrow> pool_task \<Rightarrow> bool" where
  "promise_ok env s0 db (Importing r t) = task_ok env s0 r t"
| "promise_ok env s0 db (Removing r) = True"
| "promise_ok env s0 db (Finished r) =
     (snd (record_outcome env s0 r) \<noteq> None \<longrightarrow> map_of db (fst r) = None)"

text \<open>
  The invariant of a run that started in the state \<open>s0\<close>: the promises and the chunks
  still to come are the persisted records of \<open>s0\<close> in order, every promise is as above,
  and the load statistics have gained the outcomes of exactly the promises that had
  their callback.
\<close>

fun run_invariant :: "host \<Rightarrow> state \<Rightarrow> config \<Rightarrow> bool" where
  "run_invariant env s0 (tasks, todo, s) =
     (map record_of tasks @ concat todo = pluginsJSCode s0
      \<and> list_all (promise_ok env s0 (pluginsJSCode s)) tasks
      \<and> mset (loadStats s)
          = mset (loadStats s0)
            + mset (map (record_outcome env s0)
                 (map record_of (filter (\<lambda>t. \<not> is_Importing t) tasks))))"

section \<open>A concrete host\<close>

text \<open>
  A host to run the definitions on. Its scripts are named by what they do: \<open>good\<close>
  exports the example plugin and \<open>good.min\<close> is its rewritten text, \<open>imports\<close> exports
  the same plugin and has a module import on its third line, \<open>malformed\<close> exports a
  plugin with an empty \<open>GROUP\<close>, \<open>empty\<close> exports nothing; any other text fails when run.
\<close>

definition plain_tree :: ast_node where
  "plain_tree =
     AST_Node JUndefined (JStr ''plugin'') 1
       [AST_Node (JStr ''exports'') (JStr ''plugin'') 1 [],
        AST_Node (JStr ''Demo'') (JStr ''class'') 1 []]"

definition import_tree :: ast_node where
  "import_tree =
     AST_Node JUndefined (JStr ''plugin'') 1
       [AST_Node (JStr ''exports'') (JStr ''plugin'') 1 [],
        AST_Node (JStr ''Demo'') (JStr ''class'') 1
          [AST_Node JUndefined (JStr ''search'') 2
             [AST_Node JUndefined (JStr ''import'') 3 []]]]"

definition malformed_plugin :: PluginInterface where
  "malformed_plugin = demo_plugin\<lparr>ID := JStr ''broken0123456789'', GROUP := JStr []\<rparr>"

definition demo_host :: host where
  "demo_host = \<lparr>
     existsSync = (\<lambda>path. path = ''/plugins/demo.js''),
     readFileSync = (\<lambda>path. Inr ''good''),
     parse = (\<lambda>code. if code = ''imports'' then Inr import_tree else Inr plain_tree),
     print_to_string = (\<lambda>ast. Inr ''good.min''),
     runScript = (\<lambda>code.
        if code = ''good'' \<or> code = ''good.min'' \<or> code = ''imports'' then Inr (Some demo_plugin)
        else if code = ''malformed'' then Inr (Some malformed_plugin)
        else if code = ''empty'' then Inr None
        else Inl ''script failed''),
     construct = (\<lambda>plugin. Inr (Instance 1)),
     put_error = (\<lambda>r. None),
     getAll_null = False \<rparr>"

text \<open>The same host with a persistence collaborator that rejects every \<open>put\<close>.\<close>

definition demo_host_put_fails :: host where
  "demo_host_put_fails = demo_host\<lparr>put_error := (\<lambda>r. Some ''put failed'')\<rparr>"

definition initial_state :: state where
  "initial_state =
     \<lparr>pluginsPool = [], pluginsStore = [], pluginsJSCode = [], executed = [], loadStats = []\<rparr>"

text \<open>The same host with a plugin class whose constructor throws.\<close>

definition demo_host_construct_fails :: host where
  "demo_host_construct_fails = demo_host\<lparr>construct := (\<lambda>plugin. Inl ''constructor failed'')\<rparr>"

text \<open>A registry that holds the example plugin, disabled.\<close>

definition registered_state :: state where
  "registered_state = initial_state\<lparr>pluginsPool :=
     [(''abcdefghij123456'',
       \<lparr>p_enable = False,
        props = \<lparr>ID = JStr ''abcdefghij123456'', TYPE' = JNum 0, GROUP = JStr ''news'',
                 NAME = JStr ''Demo'', VERSION = JStr ''1.0'', VERSION_CODE = JNum 1,
                 PLUGIN_FILE_URL = JStr [], BASE_URL = JStr ''http://example.com''\<rparr>,
        p_instance = None\<rparr>)]\<rparr>"

text \<open>A persisted store with one valid record and one whose script is malformed.\<close>

definition mixed_state :: state where
  "mixed_state = initial_state\<lparr>pluginsJSCode :=
     [(''abcdefghij123456'', ''good'', True), (''broken0123456789'', ''malformed'', True)]\<rparr>"

text \<open>
  A schedule for the two records of \<open>mixed_state\<close> in one chunk, under which the import
  of the second record settles before that of the first, and the state it ends in.
\<close>

definition settles_out_of_order :: "choice list" where
  "settles_out_of_order =
     [NextChunk, Resume 1, Resume 1, Resume 1,
      Resume 0, Resume 0, Resume 0, Resume 0, Resume 0, Resume 1]"

definition mixed_state_loaded :: state where
  "mixed_state_loaded =
     \<lparr>pluginsPool =
        [(''abcdefghij123456'',
          \<lparr>p_enable = True,
           props = \<lparr>ID = JStr ''abcdefghij123456'', TYPE' = JNum 0, GROUP = JStr ''news'',
                    NAME = JStr ''Demo'', VERSION = JStr ''1.0'', VERSION_CODE = JNum 1,
                    PLUGIN_FILE_URL = JStr [], BASE_URL = JStr ''http://example.com''\<rparr>,
           p_instance = Some (Instance 1)\<rparr>)],
      pluginsStore = [''abcdefghij123456''],
      pluginsJSCode = [(''abcdefghij123456'', ''good'', True)],
      executed = [''good'', ''malformed''],
      loadStats =
        [(''broken0123456789'',
          Some ''Static property [GROUP] Length:0, GROUP range in length [2,15]''),
         (''abcdefghij123456'', None)]\<rparr>"

text \<open>
  The invariant of the registry: a disabled entry has no instance, and an entry with an
  instance is enabled.
\<close>

definition pool_invariant :: "state \<Rightarrow> bool" where
  "pool_invariant s =
     list_all (\<lambda>(i, e). (\<not> p_enable e \<longrightarrow> p_instance e = None)
                        \<and> (p_instance e \<noteq> None \<longrightarrow> p_enable e)) (pluginsPool s)"

text \<open>
  The states the operations of the registry lead to from an empty registry; for
  \<open>importPool\<close> every state a run of it passes through.
\<close>

inductive reachable :: "host \<Rightarrow> state \<Rightarrow> bool" for env :: host where
  reach_initial: "pluginsPool s = [] \<Longrightarrow> reachable env s"
| reach_import: "reachable env s \<Longrightarrow> reachable env (snd (import_plugin env path code options s))"
| reach_enable: "reachable env s \<Longrightarrow> reachable env (snd (enable_plugin env i s))"
| reach_disable: "reachable env s \<Longrightarrow> reachable env (snd (disable env i s))"
| reach_delete: "reachable env s \<Longrightarrow> reachable env (delete i s)"
| reach_importPool:
    "reachable env s \<Longrightarrow> pool_run env schedule (importPool env n s) = Some (tasks, todo, s')
       \<Longrightarrow> reachable env s'"

section \<open>Properties of the schema validator\<close>

lemmas schema_defs = isPlugin_throws_def static_checks_def isBookSource_def isBookStore_def
  isUndefined_def isString_def isNumber_def isFunction_def test_id_class_def id_char_def
  trim_def is_space_def valueOf_def test_http_def test_http_js_def starts_ci_def to_lower_def
  js_tail_def line_terminator_def

lemma demo_plugin_accepted: "isPlugin_throws demo_plugin = Inr ()"
  by (simp add: schema_defs demo_plugin_def)

text \<open>
  The checks on \<open>ID\<close> that hold: an \<open>ID\<close> whose length is outside 16 to 32, one with
  leading or trailing white space, and one without any character of the class are
  rejected; the lengths 16 and 32 pass.
\<close>

lemma ID_length_rejected:
  assumes "ID plugin = JStr s" and "length s < 16 \<or> 32 < length s"
  shows "\<exists>e. isPlugin_throws plugin = Inl e"
  using assms by (auto simp: isPlugin_throws_def static_checks_def isUndefined_def isString_def)

lemma ID_untrimmed_rejected:
  assumes "ID plugin = JStr s" and "trim s \<noteq> s"
  shows "isPlugin_throws plugin = Inl ''The ID format is not standard''"
  using assms by (simp add: isPlugin_throws_def static_checks_def isUndefined_def isString_def)

lemma ID_without_class_char_rejected:
  assumes "ID plugin = JStr s" and "\<not> list_ex id_char s"
  shows "isPlugin_throws plugin = Inl ''The ID format is not standard''"
  using assms by (simp add: isPlugin_throws_def static_checks_def isUndefined_def isString_def test_id_class_def)

lemma ID_boundary_lengths_accepted:
  "isPlugin_throws (demo_plugin\<lparr>ID := JStr ''abcdefghij123456''\<rparr>) = Inr ()"
  "isPlugin_throws (demo_plugin\<lparr>ID := JStr ''abcdefghij123456abcdefghij123456''\<rparr>) = Inr ()"
  by (simp_all add: schema_defs demo_plugin_def)

text \<open>
  C5: an \<open>ID\<close> with a character outside \<open>[A-Za-z0-9_-]\<close> is to be rejected. The pattern
  of \<open>_isPlugin\<close> only asks for one character of the class somewhere in the \<open>ID\<close>: the
  example descriptor with the 16 characters \<open>abcdefghij12345!\<close> as its \<open>ID\<close> passes the
  whole validation although \<open>!\<close> is outside the class.
\<close>

theorem ID_charset_not_enforced:
  "isPlugin_throws (demo_plugin\<lparr>ID := JStr ''abcdefghij12345!''\<rparr>) = Inr ()
   \<and> \<not> list_all id_char ''abcdefghij12345!''
   \<and> length ''abcdefghij12345!'' = 16"
  by (simp add: schema_defs demo_plugin_def)

text \<open>
  C8: a plugin whose \<open>TYPE\<close> is the \<open>BOOK_STORE\<close> member never passes \<open>_isPlugin\<close>, and
  \<open>isPlugin\<close> answers false for it; when its static properties pass, the failure is the
  one \<open>_isBookStore\<close> throws.
\<close>

theorem store_type_never_passes:
  assumes "TYPE' plugin = JNum (type_code BOOK_STORE)"
  shows "isPlugin_throws plugin \<noteq> Inr () \<and> \<not> isPlugin plugin
         \<and> (static_checks plugin = Inr () \<longrightarrow> isPlugin_throws plugin = Inl ''unknown'')"
  using assms by (auto simp: isPlugin_def isPlugin_throws_def isBookStore_def split: sum.splits)

theorem store_type_never_passes_witness:
  "TYPE' (demo_plugin\<lparr>TYPE' := JNum 1\<rparr>) = JNum (type_code BOOK_STORE)
   \<and> static_checks (demo_plugin\<lparr>TYPE' := JNum 1\<rparr>) = Inr ()
   \<and> isPlugin_throws (demo_plugin\<lparr>TYPE' := JNum 1\<rparr>) = Inl ''unknown''
   \<and> \<not> isPlugin (demo_plugin\<lparr>TYPE' := JNum 1\<rparr>)"
proof -
  have t: "TYPE' (demo_plugin\<lparr>TYPE' := JNum 1\<rparr>) = JNum (type_code BOOK_STORE)"
    by simp
  have s: "static_checks (demo_plugin\<lparr>TYPE' := JNum 1\<rparr>) = Inr ()"
    by (simp add: schema_defs demo_plugin_def)
  from store_type_never_passes [OF t] s show ?thesis
    using t by blast
qed

section \<open>Properties of the sandbox\<close>

lemmas heap_defs = initial_heap_def sandbox_own_def find_prop_def own_lookup_def prop_value_def

text \<open>
  C1, as the code has it: a read of \<open>Symbol.unscopables\<close> yields \<open>undefined\<close>. For every
  other key, a read fails with the permission message naming the key when the key is not
  in the target (own or inherited), and when its value is the ambient global; a value of
  type \<open>object\<close> other than \<open>null\<close> comes back wrapped in a proxy of the same handler, so
  that a read through the result runs the same trap on that value; a value of any other
  type, a function among them, comes back as it is.
\<close>

theorem get_trap_rules:
  "handler_get h window target Unscopables = Inr JUndefined
   \<and> (p \<noteq> Unscopables \<and> \<not> has_in h target p \<longrightarrow>
        handler_get h window target p = Inl (denied_access p))
   \<and> (p \<noteq> Unscopables \<and> has_in h target p \<and> Reflect_get h window target p = Inr window \<longrightarrow>
        handler_get h window target p = Inl (denied_access p))
   \<and> (p \<noteq> Unscopables \<and> has_in h target p \<and> Reflect_get h window target p = Inr val
        \<and> val \<noteq> window \<and> typeof val = ''object'' \<and> val \<noteq> JNull \<longrightarrow>
        handler_get h window target p = Inr (JProxy val)
        \<and> (\<forall>q. Reflect_get h window (JProxy val) q = handler_get h window val q))
   \<and> (p \<noteq> Unscopables \<and> has_in h target p \<and> Reflect_get h window target p = Inr val
        \<and> val \<noteq> window \<and> typeof val \<noteq> ''object'' \<longrightarrow>
        handler_get h window target p = Inr val)"
proof -
  have wrap: "new_Proxy v = Inr (JProxy v)" if "typeof v = ''object''" "v \<noteq> JNull" for v
    using that by (cases v) simp_all
  show ?thesis
    by (simp add: handler_get.simps wrap)
qed

theorem get_trap_rules_witness:
  "handler_get initial_heap (JObj 0) (JObj 10) Unscopables = Inr JUndefined
   \<and> handler_get initial_heap (JObj 0) (JObj 10) (Name ''fetch'') = Inl (denied_access (Name ''fetch''))
   \<and> handler_get initial_heap (JObj 0) (JObj 0) (Name ''window'') = Inl (denied_access (Name ''window''))
   \<and> handler_get initial_heap (JObj 0) (JObj 10) (Name ''plugin'') = Inr (JProxy (JObj 11))
   \<and> Reflect_get initial_heap (JObj 0) (JProxy (JObj 11)) (Name ''type'') = Inr (JProxy (JObj 12))
   \<and> handler_get initial_heap (JObj 0) (JObj 12) (Name ''BOOK_STORE'') = Inr (JNum 1)"
proof -
  have a: "Name ''fetch'' \<noteq> Unscopables \<and> \<not> has_in initial_heap (JObj 10) (Name ''fetch'')"
    by (simp add: heap_defs)
  have b: "Name ''window'' \<noteq> Unscopables \<and> has_in initial_heap (JObj 0) (Name ''window'')
           \<and> Reflect_get initial_heap (JObj 0) (JObj 0) (Name ''window'') = Inr (JObj 0)"
    by (simp add: heap_defs)
  have c: "Name ''plugin'' \<noteq> Unscopables \<and> has_in initial_heap (JObj 10) (Name ''plugin'')
           \<and> Reflect_get initial_heap (JObj 0) (JObj 10) (Name ''plugin'') = Inr (JObj 11)
           \<and> JObj 11 \<noteq> JObj 0 \<and> typeof (JObj 11) = ''object'' \<and> JObj 11 \<noteq> JNull"
    by (simp add: heap_defs)
  have d: "Name ''BOOK_STORE'' \<noteq> Unscopables \<and> has_in initial_heap (JObj 12) (Name ''BOOK_STORE'')
           \<and> Reflect_get initial_heap (JObj 0) (JObj 12) (Name ''BOOK_STORE'') = Inr (JNum 1)
           \<and> JNum 1 \<noteq> JObj 0 \<and> typeof (JNum 1) \<noteq> ''object''"
    by (simp add: heap_defs)
  have e: "Name ''type'' \<noteq> Unscopables \<and> has_in initial_heap (JObj 11) (Name ''type'')
           \<and> Reflect_get initial_heap (JObj 0) (JObj 11) (Name ''type'') = Inr (JObj 12)
           \<and> JObj 12 \<noteq> JObj 0 \<and> typeof (JObj 12) = ''object'' \<and> JObj 12 \<noteq> JNull"
    by (simp add: heap_defs)
  note r1 = get_trap_rules [of initial_heap "JObj 0" "JObj 10" "Name ''fetch''" JUndefined]
  note r2 = get_trap_rules [of initial_heap "JObj 0" "JObj 0" "Name ''window''" JUndefined]
  note r3 = get_trap_rules [of initial_heap "JObj 0" "JObj 10" "Name ''plugin''" "JObj 11"]
  note r4 = get_trap_rules [of initial_heap "JObj 0" "JObj 12" "Name ''BOOK_STORE''" "JNum 1"]
  note r5 = get_trap_rules [of initial_heap "JObj 0" "JObj 11" "Name ''type''" "JObj 12"]
  have 1: "handler_get initial_heap (JObj 0) (JObj 10) Unscopables = Inr JUndefined"
    using r1 by blast
  have 2: "handler_get initial_heap (JObj 0) (JObj 10) (Name ''fetch'') = Inl (denied_access (Name ''fetch''))"
    using r1 a by blast
  have 3: "handler_get initial_heap (JObj 0) (JObj 0) (Name ''window'') = Inl (denied_access (Name ''window''))"
    using r2 b by blast
  have 4: "handler_get initial_heap (JObj 0) (JObj 10) (Name ''plugin'') = Inr (JProxy (JObj 11))
           \<and> (\<forall>q. Reflect_get initial_heap (JObj 0) (JProxy (JObj 11)) q = handler_get initial_heap (JObj 0) (JObj 11) q)"
    using r3 c by blast
  have 5: "handler_get initial_heap (JObj 0) (JObj 11) (Name ''type'') = Inr (JProxy (JObj 12))"
    using r5 e by blast
  have 6: "handler_get initial_heap (JObj 0) (JObj 12) (Name ''BOOK_STORE'') = Inr (JNum 1)"
    using r4 d by blast
  from 1 2 3 4 5 6 show ?thesis by simp
qed

text \<open>
  C1 as stated fails: \<open>constructor\<close> is not among the names of the container, yet the read
  finds it on \<open>Object.prototype\<close> and returns the function \<open>Object\<close>; and the constructor
  \<open>String\<close> of the container comes back unwrapped, so that the next read on it is not
  intercepted and reaches \<open>Function\<close>.
\<close>

theorem get_trap_leaks_unwrapped_functions:
  "Name ''constructor'' \<notin> fst ` set sandbox_own
   \<and> handler_get initial_heap (JObj 0) (JObj 10) (Name ''constructor'') = Inr (JFun 2)
   \<and> Name ''String'' \<in> fst ` set sandbox_own
   \<and> handler_get initial_heap (JObj 0) (JObj 10) (Name ''String'') = Inr (JFun 20)
   \<and> Reflect_get initial_heap (JObj 0) (JFun 20) (Name ''constructor'') = Inr (JFun 4)"
  by (simp add: handler_get.simps heap_defs)

lemma own_lookup_update_other:
  "q \<noteq> p \<Longrightarrow> h a = Some ob \<Longrightarrow>
     own_lookup (h(a \<mapsto> ob\<lparr>own := AList.update p v (own ob)\<rparr>)) b q = own_lookup h b q"
  by (simp add: own_lookup_def update_conv')

lemma find_prop_update_other:
  assumes "q \<noteq> p" and "h a = Some ob"
  shows "find_prop (h(a \<mapsto> ob\<lparr>own := AList.update p v (own ob)\<rparr>)) b q = find_prop h b q"
proof -
  let ?h = "h(a \<mapsto> ob\<lparr>own := AList.update p v (own ob)\<rparr>)"
  have l: "own_lookup ?h c q = own_lookup h c q" for c
    using assms by (rule own_lookup_update_other)
  show ?thesis
  proof (cases "b = a")
    case True
    then show ?thesis using assms l by (simp add: find_prop_def)
  next
    case False
    then show ?thesis using l by (simp add: find_prop_def split: option.splits)
  qed
qed

lemma find_prop_update_same:
  assumes "h a = Some ob"
  shows "find_prop (h(a \<mapsto> ob\<lparr>own := AList.update p v (own ob)\<rparr>)) a p = Some v"
  by (simp add: find_prop_def own_lookup_def update_conv')

text \<open>
  C4, as the code has it: a write a script issues on a proxy of the handler, the
  container or any value the \<open>get\<close> trap handed out wrapped, is the \<open>set\<close> trap on the
  proxy's target; it fails with the permission message naming the property unless the
  target is \<open>sandbox.plugin\<close> and the property is \<open>exports\<close>; that one write succeeds,
  and the function \<open>runScript\<close> returns then reads the value written.
\<close>

theorem set_trap_only_exports:
  "script_write h sandbox (JProxy target) p v = handler_set h sandbox target p v
   \<and> (target \<noteq> prop_value h sandbox (Name ''plugin'') \<or> p \<noteq> Name ''exports'' \<longrightarrow>
        script_write h sandbox (JProxy target) p v
          = Inl (Throw (''Permission denied to set property or function ['' @ key_string p @ '']'')))
   \<and> (prop_value h sandbox (Name ''plugin'') = JObj a \<and> h a = Some ob \<longrightarrow>
        (\<exists>h'. script_write h sandbox (JProxy (JObj a)) (Name ''exports'') v = Inr (True, h')
              \<and> read_exports h' sandbox = v))"
proof (intro conjI impI)
  show "script_write h sandbox (JProxy target) p v = handler_set h sandbox target p v"
    by simp
next
  assume "target \<noteq> prop_value h sandbox (Name ''plugin'') \<or> p \<noteq> Name ''exports''"
  then show "script_write h sandbox (JProxy target) p v
        = Inl (Throw (''Permission denied to set property or function ['' @ key_string p @ '']''))"
    by (auto simp: handler_set.simps denied_set_def)
next
  assume A: "prop_value h sandbox (Name ''plugin'') = JObj a \<and> h a = Some ob"
  let ?h = "h(a \<mapsto> ob\<lparr>own := AList.update (Name ''exports'') v (own ob)\<rparr>)"
  have 1: "script_write h sandbox (JProxy (JObj a)) (Name ''exports'') v = Inr (True, ?h)"
    using A by (simp add: handler_set.simps)
  have "find_prop ?h sandbox (Name ''plugin'') = find_prop h sandbox (Name ''plugin'')"
    using A by (intro find_prop_update_other) simp_all
  then have 2: "prop_value ?h sandbox (Name ''plugin'') = JObj a"
    using A by (simp add: prop_value_def)
  have 3: "prop_value ?h a (Name ''exports'') = v"
    using A find_prop_update_same [of h a ob] by (simp add: prop_value_def)
  from 1 2 3
  show "\<exists>h'. script_write h sandbox (JProxy (JObj a)) (Name ''exports'') v = Inr (True, h')
              \<and> read_exports h' sandbox = v"
    by (simp add: read_exports_def)
qed

theorem set_trap_only_exports_witness:
  "script_write initial_heap 10 (JProxy (JObj 11)) (Name ''type'') (JNum 5)
      = Inl (Throw ''Permission denied to set property or function [type]'')
   \<and> script_write initial_heap 10 (JProxy (JObj 10)) (Name ''exports'') (JNum 5)
      = Inl (Throw ''Permission denied to set property or function [exports]'')
   \<and> (\<exists>h'. script_write initial_heap 10 (JProxy (JObj 11)) (Name ''exports'') (JFun 77)
            = Inr (True, h')
          \<and> read_exports h' 10 = JFun 77)"
proof -
  have p: "prop_value initial_heap 10 (Name ''plugin'') = JObj 11"
    by (simp add: heap_defs)
  have o: "initial_heap 11 = Some \<lparr>own = [(Name ''exports'', JNull), (Name ''type'', JObj 12)], chain = [1]\<rparr>"
    by (simp add: initial_heap_def)
  have a: "JObj 11 \<noteq> prop_value initial_heap 10 (Name ''plugin'') \<or> Name ''type'' \<noteq> Name ''exports''"
    by simp
  have b: "JObj 10 \<noteq> prop_value initial_heap 10 (Name ''plugin'') \<or> Name ''exports'' \<noteq> Name ''exports''"
    using p by simp
  from set_trap_only_exports [where target = "JObj 11" and h = initial_heap and sandbox = 10
      and p = "Name ''type''" and v = "JNum 5"] a
  have 1: "script_write initial_heap 10 (JProxy (JObj 11)) (Name ''type'') (JNum 5)
      = Inl (Throw ''Permission denied to set property or function [type]'')"
    by simp
  from set_trap_only_exports [where target = "JObj 10" and h = initial_heap and sandbox = 10
      and p = "Name ''exports''" and v = "JNum 5"] b
  have 2: "script_write initial_heap 10 (JProxy (JObj 10)) (Name ''exports'') (JNum 5)
      = Inl (Throw ''Permission denied to set property or function [exports]'')"
    by simp
  from set_trap_only_exports [where h = initial_heap and sandbox = 10 and v = "JFun 77"
      and a = 11] p o
  have 3: "\<exists>h'. script_write initial_heap 10 (JProxy (JObj 11)) (Name ''exports'') (JFun 77)
            = Inr (True, h')
          \<and> read_exports h' 10 = JFun 77"
    by blast
  from 1 2 3 show ?thesis by blast
qed

text \<open>
  C4 as stated fails: the \<open>get\<close> trap hands the function \<open>String\<close> out unwrapped, and a
  write on it is an ordinary one that stores the value and raises nothing.
\<close>

theorem write_on_unwrapped_function_succeeds:
  "handler_get initial_heap (JObj 0) (JObj 10) (Name ''String'') = Inr (JFun 20)
   \<and> script_write initial_heap 10 (JFun 20) (Name ''__probe'') (JNum 1)
       = Inr (True, initial_heap(20 \<mapsto>
           \<lparr>own = [(Name ''prototype'', JObj 46), (Name ''__probe'', JNum 1)], chain = [3, 1]\<rparr>))
   \<and> prop_value (initial_heap(20 \<mapsto>
           \<lparr>own = [(Name ''prototype'', JObj 46), (Name ''__probe'', JNum 1)], chain = [3, 1]\<rparr>))
         20 (Name ''__probe'') = JNum 1"
proof -
  have g: "handler_get initial_heap (JObj 0) (JObj 10) (Name ''String'') = Inr (JFun 20)"
    by (simp add: handler_get.simps heap_defs)
  have o: "initial_heap 20 = Some \<lparr>own = [(Name ''prototype'', JObj 46)], chain = [3, 1]\<rparr>"
    by (simp add: initial_heap_def)
  have w: "script_write initial_heap 10 (JFun 20) (Name ''__probe'') (JNum 1)
       = Inr (True, initial_heap(20 \<mapsto>
           \<lparr>own = [(Name ''prototype'', JObj 46), (Name ''__probe'', JNum 1)], chain = [3, 1]\<rparr>))"
    by (simp add: o)
  have r: "prop_value (initial_heap(20 \<mapsto>
           \<lparr>own = [(Name ''prototype'', JObj 46), (Name ''__probe'', JNum 1)], chain = [3, 1]\<rparr>))
         20 (Name ''__probe'') = JNum 1"
    by (simp add: prop_value_def find_prop_def own_lookup_def)
  from g w r show ?thesis by (intro conjI)
qed

section \<open>Properties of the static code validator\<close>

lemmas host_defs = demo_host_def initial_state_def registered_state_def
  plain_tree_def import_tree_def bulk_options_def
lemmas pipeline_defs = import_plugin_def import_prepare_def resolve_def check_def validate_def
  pluginExports_def getPluginStore_def put_def truthy_def errorHandler_def importJSCode_def

lemma malformed_plugin_rejected:
  "isPlugin_throws malformed_plugin
     = Inl ''Static property [GROUP] Length:0, GROUP range in length [2,15]''"
  by (simp add: schema_defs demo_plugin_def malformed_plugin_def show_nat.simps)

text \<open>
  The walk stops at a module-import construct exactly when the tree has one, wherever it
  is, and then reports the line of such a node.
\<close>

lemma walk_finds_import:
  "(list_ex is_import (nodes ast) \<longrightarrow>
      (\<exists>node \<in> set (nodes ast). is_import node
         \<and> walk ast = Inl (''Cannot import modules, in the '' @ show_nat (start_line node) @ '' line'')))
   \<and> (\<not> list_ex is_import (nodes ast) \<longrightarrow> walk ast = Inr ())"
  "(list_ex is_import (concat (map nodes asts)) \<longrightarrow>
      (\<exists>node \<in> set (concat (map nodes asts)). is_import node
         \<and> walk_list asts = Inl (''Cannot import modules, in the '' @ show_nat (start_line node) @ '' line'')))
   \<and> (\<not> list_ex is_import (concat (map nodes asts)) \<longrightarrow> walk_list asts = Inr ())"
proof (induction ast and asts rule: walk_walk_list.induct)
  case (1 n v l cs)
  then show ?case by (auto simp: list_ex_iff)
next
  case 2
  then show ?case by simp
next
  case (3 c cs)
  show ?case
  proof (cases "list_ex is_import (nodes c)")
    case True
    with 3(1) show ?thesis by (auto simp: list_ex_iff)
  next
    case False
    with 3(1) have "walk c = Inr ()" by simp
    with 3(2) False show ?thesis by (auto simp: list_ex_iff)
  qed
qed

lemma import_tree_contains_import: "contains_import import_tree"
  by (simp add: contains_import_def import_tree_def is_import_def isString_def)

text \<open>
  C6, as the code has it: when \<open>check\<close> runs the validator (no options, or a truthy
  \<open>minify\<close>), a script whose tree has a module-import construct anywhere is rejected
  with the line of such a node and nothing is run; when options are given without a
  truthy \<open>minify\<close>, as in \<open>importPool\<close>, the validator is skipped and the script is run
  as it is.
\<close>

theorem import_construct_rejected_when_validated:
  "((options = None \<or> truthy minify options) \<and> parse env jscode = Inr ast \<and> contains_import ast \<longrightarrow>
      (\<exists>node \<in> set (nodes ast). is_import node
         \<and> check env jscode options s
             = (Inl (''Cannot import modules, in the '' @ show_nat (start_line node) @ '' line''), s)))
   \<and> (options \<noteq> None \<and> \<not> truthy minify options \<longrightarrow>
        executed (snd (check env jscode options s)) = executed s @ [jscode])"
proof (intro conjI impI)
  assume A: "(options = None \<or> truthy minify options) \<and> parse env jscode = Inr ast \<and> contains_import ast"
  then obtain node where n: "node \<in> set (nodes ast)" "is_import node"
      "walk ast = Inl (''Cannot import modules, in the '' @ show_nat (start_line node) @ '' line'')"
    using walk_finds_import(1) [of ast] unfolding contains_import_def by blast
  have "check env jscode options s
      = (Inl (''Cannot import modules, in the '' @ show_nat (start_line node) @ '' line''), s)"
    using A n(3) by (simp add: check_def validate_def errorHandler_def)
  with n show "\<exists>node \<in> set (nodes ast). is_import node
         \<and> check env jscode options s
             = (Inl (''Cannot import modules, in the '' @ show_nat (start_line node) @ '' line''), s)"
    by blast
next
  assume B: "options \<noteq> None \<and> \<not> truthy minify options"
  then have "\<not> (options = None \<or> truthy minify options)"
    by simp
  then have "check env jscode options s =
      (case pluginExports env jscode s of
         (Inl e, s1) \<Rightarrow> (Inl (errorHandler e), s1)
       | (Inr plugin, s1) \<Rightarrow>
           (case isPlugin_throws plugin of
              Inl e \<Rightarrow> (Inl (errorHandler e), s1)
            | Inr _ \<Rightarrow>
                if \<not> truthy force options \<and> map_of (pluginsPool s1) (str_of (ID plugin)) \<noteq> None
                then (Inl (errorHandler (''Plugin exists ID:'' @ str_of (ID plugin))), s1)
                else (Inr (plugin, jscode), s1)))"
    unfolding check_def by (simp only: if_False sum.case)
  then show "executed (snd (check env jscode options s)) = executed s @ [jscode]"
    by (simp add: pluginExports_def Let_def split: sum.splits option.splits)
qed

theorem import_construct_rejected_when_validated_witness:
  "parse demo_host ''imports'' = Inr import_tree \<and> contains_import import_tree
   \<and> check demo_host ''imports'' None initial_state
       = (Inl ''Cannot import modules, in the 3 line'', initial_state)
   \<and> Some (bulk_options True) \<noteq> None \<and> \<not> truthy minify (Some (bulk_options True))
   \<and> executed (snd (check demo_host ''imports'' (Some (bulk_options True)) initial_state)) = [''imports'']"
proof -
  have p: "parse demo_host ''imports'' = Inr import_tree"
    by (simp add: demo_host_def)
  have o: "Some (bulk_options True) \<noteq> None \<and> \<not> truthy minify (Some (bulk_options True))"
    by (simp add: truthy_def bulk_options_def)
  have l: "\<forall>node \<in> set (nodes import_tree). is_import node \<longrightarrow> start_line node = 3"
    by (simp add: import_tree_def is_import_def isString_def)
  from import_construct_rejected_when_validated
         [of None demo_host "''imports''" import_tree initial_state]
       p import_tree_contains_import
  obtain node where "node \<in> set (nodes import_tree)" "is_import node"
     "check demo_host ''imports'' None initial_state
        = (Inl (''Cannot import modules, in the '' @ show_nat (start_line node) @ '' line''), initial_state)"
    by blast
  with l have 1: "check demo_host ''imports'' None initial_state
       = (Inl ''Cannot import modules, in the 3 line'', initial_state)"
    by (simp add: show_nat.simps)
  from import_construct_rejected_when_validated
         [of "Some (bulk_options True)" demo_host "''imports''" import_tree initial_state] o
  have 2: "executed (snd (check demo_host ''imports'' (Some (bulk_options True)) initial_state)) = [''imports'']"
    by (simp add: initial_state_def)
  from p import_tree_contains_import 1 o 2 show ?thesis by blast
qed

text \<open>
  C6 as stated fails: with the options of \<open>importPool\<close> a script that has a module
  import passes \<open>check\<close> and is run in the sandbox.
\<close>

theorem unvalidated_import_runs_script_with_import:
  "parse demo_host ''imports'' = Inr import_tree \<and> contains_import import_tree
   \<and> check demo_host ''imports'' (Some (bulk_options True)) initial_state
       = (Inr (demo_plugin, ''imports''), initial_state\<lparr>executed := [''imports'']\<rparr>)"
  by (simp add: import_tree_contains_import demo_plugin_accepted check_def pluginExports_def
        truthy_def bulk_options_def demo_host_def initial_state_def)

section \<open>Properties of \<open>import\<close>\<close>

lemma demo_plugin_fields:
  "ID demo_plugin = JStr ''abcdefghij123456''"
  "TYPE' demo_plugin = JNum 0"
  "GROUP demo_plugin = JStr ''news''"
  "NAME demo_plugin = JStr ''Demo''"
  "VERSION demo_plugin = JStr ''1.0''"
  "VERSION_CODE demo_plugin = JNum 1"
  "PLUGIN_FILE_URL demo_plugin = JStr []"
  "BASE_URL demo_plugin = JStr ''http://example.com''"
  by (simp_all add: demo_plugin_def)

text \<open>
  Nothing before the \<open>put\<close> touches the registry, the persisted records or the load
  statistics, and a failed \<open>import\<close> leaves the first two as they were.
\<close>

lemma check_keeps_registry:
  "pluginsPool (snd (check env js options s)) = pluginsPool s
   \<and> pluginsJSCode (snd (check env js options s)) = pluginsJSCode s
   \<and> loadStats (snd (check env js options s)) = loadStats s"
  by (simp add: check_def pluginExports_def Let_def split: sum.splits option.splits)

lemma import_prepare_keeps_registry:
  "pluginsPool (snd (import_prepare env path code options s)) = pluginsPool s
   \<and> pluginsJSCode (snd (import_prepare env path code options s)) = pluginsJSCode s
   \<and> loadStats (snd (import_prepare env path code options s)) = loadStats s"
proof (cases "resolve env path code")
  case (Inl e)
  then show ?thesis by (simp add: import_prepare_def)
next
  case (Inr js)
  obtain r s1 where c: "check env js options s = (r, s1)"
    by (cases "check env js options s")
  with check_keeps_registry [of env js options s]
  have k: "pluginsPool s1 = pluginsPool s \<and> pluginsJSCode s1 = pluginsJSCode s
           \<and> loadStats s1 = loadStats s"
    by simp
  show ?thesis
    using Inr c k
    by (cases r) (auto simp: import_prepare_def getPluginStore_def Let_def split: sum.splits)
qed

lemma import_failure_keeps_registry:
  assumes "fst (import_plugin env path code options s) = Inl e"
  shows "pluginsPool (snd (import_plugin env path code options s)) = pluginsPool s
         \<and> pluginsJSCode (snd (import_plugin env path code options s)) = pluginsJSCode s"
proof -
  obtain r s2 where p: "import_prepare env path code options s = (r, s2)"
    by (cases "import_prepare env path code options s")
  with import_prepare_keeps_registry [of env path code options s]
  have k: "pluginsPool s2 = pluginsPool s \<and> pluginsJSCode s2 = pluginsJSCode s"
    by simp
  show ?thesis
    using assms p k
    by (cases r) (auto simp: import_plugin_def put_def split: sum.splits option.splits if_splits prod.splits)
qed

lemma demo_prepare:
  "import_prepare demo_host_put_fails None (Some ''good'') None initial_state
     = (Inr (demo_plugin, ''good.min'', Instance 1),
        initial_state\<lparr>pluginsStore := [''abcdefghij123456''], executed := [''good.min'']\<rparr>)"
  by (simp add: import_prepare_def resolve_def check_def validate_def pluginExports_def
        getPluginStore_def truthy_def errorHandler_def host_defs demo_host_put_fails_def
        demo_plugin_accepted demo_plugin_fields is_import_def isString_def)

text \<open>
  C2, as the code has it: the \<open>put\<close> comes before the entry is written, inside the same
  \<open>try\<close>. When every earlier step has succeeded, \<open>debug\<close> is not set and the \<open>put\<close> is
  rejected, \<open>import\<close> fails with that error, returns no instance and leaves the registry
  and the persisted records as they were.
\<close>

theorem put_failure_aborts_import:
  assumes "import_prepare env path code options s = (Inr (PluginClass, text, pluginClass), s2)"
    and "\<not> truthy debug options"
    and "put_error env (str_of (ID PluginClass), text, truthy enable options) = Some e"
  shows "import_plugin env path code options s = (Inl e, s2)
         \<and> pluginsPool s2 = pluginsPool s \<and> pluginsJSCode s2 = pluginsJSCode s"
proof -
  have "import_plugin env path code options s = (Inl e, s2)"
    using assms by (simp add: import_plugin_def put_def errorHandler_def)
  moreover have "pluginsPool s2 = pluginsPool s \<and> pluginsJSCode s2 = pluginsJSCode s"
    using import_prepare_keeps_registry [of env path code options s] assms(1) by simp
  ultimately show ?thesis by simp
qed

theorem put_failure_aborts_import_witness:
  "\<not> truthy debug None
   \<and> put_error demo_host_put_fails (''abcdefghij123456'', ''good.min'', False) = Some ''put failed''
   \<and> import_plugin demo_host_put_fails None (Some ''good'') None initial_state
       = (Inl ''put failed'',
          initial_state\<lparr>pluginsStore := [''abcdefghij123456''], executed := [''good.min'']\<rparr>)
   \<and> pluginsPool (initial_state\<lparr>pluginsStore := [''abcdefghij123456''], executed := [''good.min'']\<rparr>)
       = pluginsPool initial_state"
proof -
  have d: "\<not> truthy debug None"
    by (simp add: truthy_def)
  have e: "put_error demo_host_put_fails
             (str_of (ID demo_plugin), ''good.min'', truthy enable None) = Some ''put failed''"
    by (simp add: demo_host_put_fails_def)
  have e': "put_error demo_host_put_fails (''abcdefghij123456'', ''good.min'', False) = Some ''put failed''"
    by (simp add: demo_host_put_fails_def)
  from put_failure_aborts_import [OF demo_prepare d e] d e' show ?thesis
    by simp
qed

text \<open>
  C2 as stated fails: on a host whose collaborator rejects the \<open>put\<close>, the import of a
  valid script fails with the error of the \<open>put\<close> and the registry stays empty, where
  the same import on a host that accepts it returns the instance.
\<close>

theorem put_failure_prevents_registration:
  "put_error demo_host_put_fails (''abcdefghij123456'', ''good.min'', False) = Some ''put failed''
   \<and> fst (import_plugin demo_host_put_fails None (Some ''good'') None initial_state) = Inl ''put failed''
   \<and> pluginsPool (snd (import_plugin demo_host_put_fails None (Some ''good'') None initial_state)) = []
   \<and> fst (import_plugin demo_host None (Some ''good'') None initial_state) = Inr (Instance 1)"
  by (simp add: import_plugin_def import_prepare_def resolve_def check_def validate_def
        pluginExports_def getPluginStore_def put_def truthy_def errorHandler_def host_defs
        demo_host_put_fails_def demo_plugin_accepted demo_plugin_fields is_import_def
        isString_def)

text \<open>The result of \<open>import\<close>, of its first part and of \<open>check\<close>, stage by stage.\<close>

lemma import_fst:
  "fst (import_plugin env path code options s) =
     (case fst (import_prepare env path code options s) of
        Inl e \<Rightarrow> Inl e
      | Inr (PluginClass, text, pluginClass) \<Rightarrow>
          (if \<not> truthy debug options then
             (case put_error env (str_of (ID PluginClass), text, truthy enable options) of
                Some e \<Rightarrow> Inl e
              | None \<Rightarrow> Inr pluginClass)
           else Inr pluginClass))"
  by (cases "import_prepare env path code options s")
     (auto simp: import_plugin_def put_def errorHandler_def split: sum.splits option.splits)

lemma prepare_fst:
  "fst (import_prepare env path code options s) =
     (case resolve env path code of
        Inl e \<Rightarrow> Inl e
      | Inr js \<Rightarrow>
          (case fst (check env js options s) of
             Inl e \<Rightarrow> Inl e
           | Inr (PluginClass, text) \<Rightarrow>
               (case construct env PluginClass of
                  Inl e \<Rightarrow> Inl e
                | Inr pluginClass \<Rightarrow> Inr (PluginClass, text, pluginClass))))"
proof (cases "resolve env path code")
  case (Inl e)
  then show ?thesis by (simp add: import_prepare_def errorHandler_def)
next
  case (Inr js)
  then show ?thesis
    by (cases "check env js options s")
       (auto simp: import_prepare_def errorHandler_def Let_def split: sum.splits)
qed

lemma check_fst:
  "fst (check env js options s) =
     (case (if options = None \<or> truthy minify options then validate env js else Inr js) of
        Inl e \<Rightarrow> Inl e
      | Inr text \<Rightarrow>
          (case runScript env text of
             Inl e \<Rightarrow> Inl e
           | Inr None \<Rightarrow> Inl ''Cannot find plugin''
           | Inr (Some plugin) \<Rightarrow>
               (case isPlugin_throws plugin of
                  Inl e \<Rightarrow> Inl e
                | Inr _ \<Rightarrow>
                    if \<not> truthy force options \<and> map_of (pluginsPool s) (str_of (ID plugin)) \<noteq> None
                    then Inl (''Plugin exists ID:'' @ str_of (ID plugin))
                    else Inr (plugin, text))))"
proof (cases "if options = None \<or> truthy minify options then validate env js else Inr js")
  case (Inl e)
  show ?thesis
    unfolding check_def Inl by (simp add: errorHandler_def)
next
  case (Inr src)
  note t = this
  show ?thesis
  proof (cases "runScript env src")
    case (Inl e)
    show ?thesis
      unfolding check_def t by (simp add: pluginExports_def errorHandler_def Inl)
  next
    case (Inr exported)
    note r = this
    show ?thesis
    proof (cases exported)
      case None
      show ?thesis
        unfolding check_def t by (simp add: pluginExports_def errorHandler_def r None)
    next
      case (Some plugin)
      show ?thesis
        unfolding check_def t
        by (cases "isPlugin_throws plugin")
           (simp_all add: pluginExports_def errorHandler_def r Some)
    qed
  qed
qed

lemmas run_defs = import_plugin_def import_prepare_def resolve_def check_def validate_def
  pluginExports_def getPluginStore_def put_def truthy_def errorHandler_def host_defs
  demo_plugin_accepted malformed_plugin_rejected demo_plugin_fields is_import_def isString_def

text \<open>
  C3: a failed \<open>import\<close> leaves the registry and the persisted records as they were, and
  a failure of any stage is the failure of the whole: source resolution, \<open>check\<close> and
  the constructor for \<open>import\<close>; inside \<open>check\<close> the static validation, the run of the
  script (a throw, or no exported value), the schema validation and the duplicate id.
\<close>

theorem import_fails_closed:
  "(fst (import_plugin env path code options s) = Inl e \<longrightarrow>
      pluginsPool (snd (import_plugin env path code options s)) = pluginsPool s
      \<and> pluginsJSCode (snd (import_plugin env path code options s)) = pluginsJSCode s)
   \<and> (resolve env path code = Inl e \<longrightarrow>
        fst (import_plugin env path code options s) = Inl e)
   \<and> (resolve env path code = Inr js \<and> fst (check env js options s) = Inl e \<longrightarrow>
        fst (import_plugin env path code options s) = Inl e)
   \<and> (resolve env path code = Inr js \<and> fst (check env js options s) = Inr (PluginClass, src)
        \<and> construct env PluginClass = Inl e \<longrightarrow>
        fst (import_plugin env path code options s) = Inl e)
   \<and> ((options = None \<or> truthy minify options) \<and> validate env js = Inl e \<longrightarrow>
        fst (check env js options s) = Inl e)
   \<and> ((if options = None \<or> truthy minify options then validate env js else Inr js) = Inr src
        \<and> runScript env src = Inl e \<longrightarrow>
        fst (check env js options s) = Inl e)
   \<and> ((if options = None \<or> truthy minify options then validate env js else Inr js) = Inr src
        \<and> runScript env src = Inr None \<longrightarrow>
        fst (check env js options s) = Inl ''Cannot find plugin'')
   \<and> ((if options = None \<or> truthy minify options then validate env js else Inr js) = Inr src
        \<and> runScript env src = Inr (Some PluginClass) \<and> isPlugin_throws PluginClass = Inl e \<longrightarrow>
        fst (check env js options s) = Inl e)
   \<and> ((if options = None \<or> truthy minify options then validate env js else Inr js) = Inr src
        \<and> runScript env src = Inr (Some PluginClass) \<and> isPlugin_throws PluginClass = Inr ()
        \<and> \<not> truthy force options \<and> map_of (pluginsPool s) (str_of (ID PluginClass)) \<noteq> None \<longrightarrow>
        fst (check env js options s) = Inl (''Plugin exists ID:'' @ str_of (ID PluginClass)))"
proof -
  have 1: "fst (import_plugin env path code options s) = Inl e \<longrightarrow>
      pluginsPool (snd (import_plugin env path code options s)) = pluginsPool s
      \<and> pluginsJSCode (snd (import_plugin env path code options s)) = pluginsJSCode s"
    using import_failure_keeps_registry [of env path code options s e] by blast
  have 2: "resolve env path code = Inl e \<longrightarrow>
        fst (import_plugin env path code options s) = Inl e"
    by (simp add: import_fst prepare_fst)
  have 3: "resolve env path code = Inr js \<and> fst (check env js options s) = Inl e \<longrightarrow>
        fst (import_plugin env path code options s) = Inl e"
    by (simp add: import_fst prepare_fst)
  have 4: "resolve env path code = Inr js \<and> fst (check env js options s) = Inr (PluginClass, src)
        \<and> construct env PluginClass = Inl e \<longrightarrow>
        fst (import_plugin env path code options s) = Inl e"
    by (simp add: import_fst prepare_fst)
  have 5: "(options = None \<or> truthy minify options) \<and> validate env js = Inl e \<longrightarrow>
        fst (check env js options s) = Inl e"
    by (auto simp: check_fst)
  have 6: "(if options = None \<or> truthy minify options then validate env js else Inr js) = Inr src
        \<and> runScript env src = Inl e \<longrightarrow>
        fst (check env js options s) = Inl e"
    by (simp only: check_fst) simp
  have 7: "(if options = None \<or> truthy minify options then validate env js else Inr js) = Inr src
        \<and> runScript env src = Inr None \<longrightarrow>
        fst (check env js options s) = Inl ''Cannot find plugin''"
    by (simp only: check_fst) simp
  have 8: "(if options = None \<or> truthy minify options then validate env js else Inr js) = Inr src
        \<and> runScript env src = Inr (Some PluginClass) \<and> isPlugin_throws PluginClass = Inl e \<longrightarrow>
        fst (check env js options s) = Inl e"
    by (simp only: check_fst) simp
  have 9: "(if options = None \<or> truthy minify options then validate env js else Inr js) = Inr src
        \<and> runScript env src = Inr (Some PluginClass) \<and> isPlugin_throws PluginClass = Inr ()
        \<and> \<not> truthy force options \<and> map_of (pluginsPool s) (str_of (ID PluginClass)) \<noteq> None \<longrightarrow>
        fst (check env js options s) = Inl (''Plugin exists ID:'' @ str_of (ID PluginClass))"
    by (simp only: check_fst) simp
  show ?thesis
    using 1 2 3 4 5 6 7 8 9 by (intro conjI) assumption+
qed

theorem import_fails_closed_witness:
  "fst (import_plugin demo_host (Some ''/nowhere.js'') None None registered_state)
     = Inl (''Plugin file '' @ [CHR 0x22] @ ''/nowhere.js'' @ [CHR 0x22] @ '' not found'')
   \<and> pluginsPool (snd (import_plugin demo_host (Some ''/nowhere.js'') None None registered_state))
       = pluginsPool registered_state
   \<and> pluginsJSCode (snd (import_plugin demo_host (Some ''/nowhere.js'') None None registered_state))
       = pluginsJSCode registered_state
   \<and> fst (import_plugin demo_host None (Some ''malformed'') (Some (bulk_options True)) registered_state)
       = Inl ''Static property [GROUP] Length:0, GROUP range in length [2,15]''
   \<and> fst (import_plugin demo_host_construct_fails None (Some ''good'') None initial_state)
       = Inl ''constructor failed''
   \<and> fst (check demo_host ''imports'' None initial_state)
       = Inl ''Cannot import modules, in the 3 line''
   \<and> fst (check demo_host ''while(1);'' (Some (bulk_options True)) initial_state)
       = Inl ''script failed''
   \<and> fst (check demo_host ''empty'' (Some (bulk_options True)) initial_state)
       = Inl ''Cannot find plugin''
   \<and> fst (check demo_host ''malformed'' (Some (bulk_options True)) initial_state)
       = Inl ''Static property [GROUP] Length:0, GROUP range in length [2,15]''
   \<and> fst (check demo_host ''good'' None registered_state)
       = Inl ''Plugin exists ID:abcdefghij123456''"
proof -
  let ?missing = "''Plugin file '' @ [CHR 0x22] @ ''/nowhere.js'' @ [CHR 0x22] @ '' not found''"
  let ?group = "''Static property [GROUP] Length:0, GROUP range in length [2,15]''"
  have h2: "resolve demo_host (Some ''/nowhere.js'') None = Inl ?missing"
    by (simp add: resolve_def demo_host_def)
  note A = import_fails_closed [where env = demo_host and path = "Some ''/nowhere.js''"
      and code = None and options = None and s = registered_state and e = ?missing]
  from A h2 have w2: "fst (import_plugin demo_host (Some ''/nowhere.js'') None None registered_state)
     = Inl ?missing"
    by blast
  from A w2 have w1: "pluginsPool (snd (import_plugin demo_host (Some ''/nowhere.js'') None None registered_state))
       = pluginsPool registered_state
     \<and> pluginsJSCode (snd (import_plugin demo_host (Some ''/nowhere.js'') None None registered_state))
       = pluginsJSCode registered_state"
    by blast
  have h3: "resolve demo_host None (Some ''malformed'') = Inr ''malformed''
      \<and> fst (check demo_host ''malformed'' (Some (bulk_options True)) registered_state) = Inl ?group"
    by (simp add: resolve_def check_def pluginExports_def truthy_def errorHandler_def host_defs
          malformed_plugin_rejected)
  from import_fails_closed [where env = demo_host and path = None and code = "Some ''malformed''"
      and options = "Some (bulk_options True)" and s = registered_state and e = ?group
      and js = "''malformed''"] h3
  have w3: "fst (import_plugin demo_host None (Some ''malformed'') (Some (bulk_options True)) registered_state)
       = Inl ?group"
    by blast
  have h4: "resolve demo_host_construct_fails None (Some ''good'') = Inr ''good''
      \<and> fst (check demo_host_construct_fails ''good'' None initial_state) = Inr (demo_plugin, ''good.min'')
      \<and> construct demo_host_construct_fails demo_plugin = Inl ''constructor failed''"
    by (simp add: resolve_def check_def validate_def pluginExports_def truthy_def errorHandler_def
          host_defs demo_host_construct_fails_def demo_plugin_accepted demo_plugin_fields
          is_import_def isString_def)
  from import_fails_closed [where env = demo_host_construct_fails and path = None
      and code = "Some ''good''" and options = None and s = initial_state
      and e = "''constructor failed''" and js = "''good''" and PluginClass = demo_plugin
      and src = "''good.min''"] h4
  have w4: "fst (import_plugin demo_host_construct_fails None (Some ''good'') None initial_state)
       = Inl ''constructor failed''"
    by blast
  have h5: "(None = None \<or> truthy minify None)
      \<and> validate demo_host ''imports'' = Inl ''Cannot import modules, in the 3 line''"
    by (simp add: validate_def host_defs is_import_def isString_def show_nat.simps)
  from import_fails_closed [where env = demo_host and options = None and s = initial_state
      and e = "''Cannot import modules, in the 3 line''" and js = "''imports''"] h5
  have w5: "fst (check demo_host ''imports'' None initial_state)
       = Inl ''Cannot import modules, in the 3 line''"
    by blast
  have o: "\<not> (Some (bulk_options True) = None \<or> truthy minify (Some (bulk_options True)))"
    by (simp add: truthy_def bulk_options_def)
  have h6: "(if Some (bulk_options True) = None \<or> truthy minify (Some (bulk_options True))
             then validate demo_host ''while(1);'' else Inr ''while(1);'') = Inr ''while(1);''
      \<and> runScript demo_host ''while(1);'' = Inl ''script failed''"
    using o by (simp add: demo_host_def)
  from import_fails_closed [where env = demo_host and options = "Some (bulk_options True)"
      and s = initial_state and e = "''script failed''" and js = "''while(1);''"
      and src = "''while(1);''"] h6
  have w6: "fst (check demo_host ''while(1);'' (Some (bulk_options True)) initial_state)
       = Inl ''script failed''"
    by blast
  have h7: "(if Some (bulk_options True) = None \<or> truthy minify (Some (bulk_options True))
             then validate demo_host ''empty'' else Inr ''empty'') = Inr ''empty''
      \<and> runScript demo_host ''empty'' = Inr None"
    using o by (simp add: demo_host_def)
  from import_fails_closed [where env = demo_host and options = "Some (bulk_options True)"
      and s = initial_state and js = "''empty''" and src = "''empty''"] h7
  have w7: "fst (check demo_host ''empty'' (Some (bulk_options True)) initial_state)
       = Inl ''Cannot find plugin''"
    by blast
  have h8: "(if Some (bulk_options True) = None \<or> truthy minify (Some (bulk_options True))
             then validate demo_host ''malformed'' else Inr ''malformed'') = Inr ''malformed''
      \<and> runScript demo_host ''malformed'' = Inr (Some malformed_plugin)
      \<and> isPlugin_throws malformed_plugin = Inl ?group"
    using o by (simp add: demo_host_def malformed_plugin_rejected)
  from import_fails_closed [where env = demo_host and options = "Some (bulk_options True)"
      and s = initial_state and e = ?group and js = "''malformed''" and src = "''malformed''"
      and PluginClass = malformed_plugin] h8
  have w8: "fst (check demo_host ''malformed'' (Some (bulk_options True)) initial_state) = Inl ?group"
    by blast
  have h9: "(if None = None \<or> truthy minify None then validate demo_host ''good'' else Inr ''good'')
              = Inr ''good.min''
      \<and> runScript demo_host ''good.min'' = Inr (Some demo_plugin)
      \<and> isPlugin_throws demo_plugin = Inr ()
      \<and> \<not> truthy force None
      \<and> map_of (pluginsPool registered_state) (str_of (ID demo_plugin)) \<noteq> None"
    by (simp add: validate_def truthy_def host_defs demo_plugin_accepted demo_plugin_fields
          is_import_def isString_def)
  from import_fails_closed [where env = demo_host and options = None
      and s = registered_state and js = "''good''" and src = "''good.min''"
      and PluginClass = demo_plugin] h9
  have "fst (check demo_host ''good'' None registered_state)
       = Inl (''Plugin exists ID:'' @ str_of (ID demo_plugin))"
    by blast
  then have w9: "fst (check demo_host ''good'' None registered_state)
       = Inl ''Plugin exists ID:abcdefghij123456''"
    by (simp add: demo_plugin_fields)
  from w1 w2 w3 w4 w5 w6 w7 w8 w9 show ?thesis
    by (intro conjI) (erule conjunct1 conjunct2 | assumption)+
qed

section \<open>The invariant of the registry\<close>

lemma list_all_update:
  "P (k, v) \<Longrightarrow> list_all P al \<Longrightarrow> list_all P (AList.update k v al)"
  by (induction al) auto

lemma list_all_delete:
  "list_all P al \<Longrightarrow> list_all P (AList.delete k al)"
  by (induction al) auto

lemma put_keeps_pool: "pluginsPool (snd (put env r s)) = pluginsPool s"
  by (simp add: put_def split: option.splits)

lemma import_keeps_invariant:
  assumes "pool_invariant s"
  shows "pool_invariant (snd (import_plugin env path code options s))"
proof -
  obtain r s2 where p: "import_prepare env path code options s = (r, s2)"
    by (cases "import_prepare env path code options s")
  with import_prepare_keeps_registry [of env path code options s]
  have k: "pluginsPool s2 = pluginsPool s"
    by simp
  show ?thesis
  proof (cases r)
    case (Inl e)
    with p k assms show ?thesis
      by (simp add: import_plugin_def pool_invariant_def)
  next
    case (Inr t)
    obtain PluginClass src pluginClass where t: "t = (PluginClass, src, pluginClass)"
      by (cases t)
    show ?thesis
      using p k assms Inr t
      by (auto simp: import_plugin_def pool_invariant_def put_def
               intro!: list_all_update split: option.splits)
  qed
qed

lemma disable_keeps_invariant:
  assumes "pool_invariant s"
  shows "pool_invariant (snd (disable env i s))"
  using assms
  by (auto simp: disable_def pool_invariant_def put_def
           intro!: list_all_update split: option.splits prod.splits)

lemma enable_keeps_invariant:
  assumes "pool_invariant s"
  shows "pool_invariant (snd (enable_plugin env i s))"
proof (cases "getById i s")
  case None
  with assms show ?thesis by (simp add: enable_plugin_def)
next
  case (Some r)
  obtain pid jscode en where r: "r = (pid, jscode, en)"
    by (cases r)
  show ?thesis
  proof (cases "map_of (pluginsPool s) i")
    case None
    with assms Some r show ?thesis by (simp add: enable_plugin_def)
  next
    case p: (Some e)
    obtain q s1 where u: "put env (pid, jscode, True) s = (q, s1)"
      by (cases "put env (pid, jscode, True) s")
    with put_keeps_pool [of env "(pid, jscode, True)" s] assms
    have i1: "pool_invariant s1"
      by (simp add: pool_invariant_def)
    show ?thesis
    proof (cases q)
      case (Inl x)
      with Some r p u i1 show ?thesis by (simp add: enable_plugin_def)
    next
      case (Inr x)
      let ?o = "Some \<lparr>force = Some True, minify = Some True, debug = None, enable = Some True\<rparr>"
      from import_keeps_invariant [OF i1, of env None "Some jscode" ?o]
      have "pool_invariant (snd (import_plugin env None (Some jscode) ?o s1))" .
      with Some r p u Inr show ?thesis
        by (auto simp: enable_plugin_def split: prod.splits sum.splits)
    qed
  qed
qed

lemma delete_keeps_invariant:
  assumes "pool_invariant s"
  shows "pool_invariant (delete i s)"
  using assms by (simp add: delete_def remove_def pool_invariant_def list_all_delete)

lemma pool_set_keeps_invariant:
  assumes "pool_invariant s"
  shows "pool_invariant (pool_set options PluginClass pluginClass s)"
  using assms by (auto simp: pool_set_def pool_invariant_def intro!: list_all_update)

lemma import_resume_keeps_invariant:
  assumes "pool_invariant s"
  shows "pool_invariant (snd (import_resume env t s))"
proof (cases t)
  case (AwaitExports options code r)
  with assms show ?thesis by (simp split: sum.splits)
next
  case (AwaitCheck options r)
  have "pool_invariant (getPluginStore i s)" for i
    using assms by (simp add: getPluginStore_def pool_invariant_def)
  with AwaitCheck assms show ?thesis
    by (auto simp: Let_def pool_set_keeps_invariant split: sum.splits prod.splits)
next
  case (AwaitPut options PluginClass code pluginClass)
  with assms put_keeps_pool [of env "(str_of (ID PluginClass), code, truthy enable options)" s]
  show ?thesis
    by (auto simp: pool_invariant_def split: prod.splits)
next
  case (PutSettled options PluginClass pluginClass r)
  with assms show ?thesis
    by (simp add: pool_set_keeps_invariant split: sum.splits)
next
  case (Settled r)
  with assms show ?thesis by simp
qed

lemma task_step_keeps_invariant:
  assumes "pool_invariant s"
  shows "pool_invariant (snd (task_step env t s))"
proof (cases t)
  case (Importing r t')
  obtain t'' s' where i: "import_resume env t' s = (t'', s')"
    by (cases "import_resume env t' s")
  with import_resume_keeps_invariant [OF assms, of env t'] have "pool_invariant s'"
    by simp
  moreover have "pool_invariant (s\<lparr>loadStats := l\<rparr>)" for l
    using assms by (simp add: pool_invariant_def)
  ultimately show ?thesis
    using Importing i by (cases t'; cases "case t' of Settled x \<Rightarrow> x") auto
next
  case (Removing r)
  with assms show ?thesis by (simp add: remove_def pool_invariant_def)
next
  case (Finished r)
  with assms show ?thesis by simp
qed

lemma import_start_keeps_registry:
  "pluginsPool (snd (import_start env jscode options s)) = pluginsPool s
   \<and> pluginsJSCode (snd (import_start env jscode options s)) = pluginsJSCode s
   \<and> loadStats (snd (import_start env jscode options s)) = loadStats s"
  by (simp add: import_start_def pluginExports_def Let_def split: sum.splits option.splits)

lemma start_chunk_keeps_registry:
  "pluginsPool (snd (start_chunk env arr s)) = pluginsPool s
   \<and> pluginsJSCode (snd (start_chunk env arr s)) = pluginsJSCode s
   \<and> loadStats (snd (start_chunk env arr s)) = loadStats s"
proof (induction arr arbitrary: s)
  case Nil
  show ?case by simp
next
  case (Cons r arr)
  obtain i jscode en where r: "r = (i, jscode, en)"
    by (cases r)
  let ?o = "Some (bulk_options en)"
  obtain t s1 where a: "import_start env jscode ?o s = (t, s1)"
    by (cases "import_start env jscode ?o s")
  with import_start_keeps_registry [of env jscode ?o s]
  have k: "pluginsPool s1 = pluginsPool s \<and> pluginsJSCode s1 = pluginsJSCode s
           \<and> loadStats s1 = loadStats s"
    by simp
  from Cons [of s1] k r a show ?case
    by (auto split: prod.splits)
qed

lemma pool_step_keeps_invariant:
  assumes "pool_step env c (tasks, todo, s) = Some (tasks', todo', s')" and "pool_invariant s"
  shows "pool_invariant s'"
proof (cases c)
  case (Resume k)
  with assms(1) have "s' = snd (task_step env (tasks ! k) s)"
    by (auto split: if_splits prod.splits)
  with assms(2) show ?thesis
    by (simp add: task_step_keeps_invariant)
next
  case NextChunk
  with assms(1) obtain arr started where "start_chunk env arr s = (started, s')"
    by (cases todo) (auto split: if_splits prod.splits)
  with assms(2) start_chunk_keeps_registry [of env arr s] show ?thesis
    by (simp add: pool_invariant_def)
qed

lemma pool_run_keeps_invariant:
  assumes "pool_run env schedule (tasks, todo, s) = Some (tasks', todo', s')" and "pool_invariant s"
  shows "pool_invariant s'"
  using assms
proof (induction schedule arbitrary: tasks todo s)
  case Nil
  then show ?case by simp
next
  case (Cons c cs)
  from Cons.prems(1) obtain tasks1 todo1 s1
    where 1: "pool_step env c (tasks, todo, s) = Some (tasks1, todo1, s1)"
      and 2: "pool_run env cs (tasks1, todo1, s1) = Some (tasks', todo', s')"
    by (auto split: option.splits)
  from pool_step_keeps_invariant [OF 1 Cons.prems(2)] Cons.IH [OF 2] show ?case
    by simp
qed

lemma reachable_invariant:
  "reachable env s \<Longrightarrow> pool_invariant s"
proof (induction rule: reachable.induct)
  case (reach_initial s)
  then show ?case by (simp add: pool_invariant_def)
next
  case (reach_import s path code options)
  then show ?case by (simp add: import_keeps_invariant)
next
  case (reach_enable s i)
  then show ?case by (simp add: enable_keeps_invariant)
next
  case (reach_disable s i)
  then show ?case by (simp add: disable_keeps_invariant)
next
  case (reach_delete s i)
  then show ?case by (simp add: delete_keeps_invariant)
next
  case (reach_importPool s schedule n tasks todo s')
  then show ?case
    by (auto simp: importPool_def dest: pool_run_keeps_invariant)
qed

lemma prepare_success_construct:
  assumes "import_prepare env path code options s = (Inr (PluginClass, src, pluginClass), s2)"
  shows "construct env PluginClass = Inr pluginClass"
proof -
  from assms have "fst (import_prepare env path code options s) = Inr (PluginClass, src, pluginClass)"
    by simp
  then show ?thesis
    by (auto simp: prepare_fst split: sum.splits)
qed

lemma import_success_entry:
  assumes "import_plugin env path code options s = (Inr inst, s')"
  shows "\<exists>PluginClass e. construct env PluginClass = Inr inst
           \<and> map_of (pluginsPool s') (str_of (ID PluginClass)) = Some e
           \<and> p_enable e = truthy enable options
           \<and> p_instance e = (if truthy enable options then Some inst else None)"
proof -
  obtain r s2 where p: "import_prepare env path code options s = (r, s2)"
    by (cases "import_prepare env path code options s")
  from assms p obtain PluginClass src pluginClass where r: "r = Inr (PluginClass, src, pluginClass)"
    by (cases r) (auto simp: import_plugin_def)
  from p r have c: "construct env PluginClass = Inr pluginClass"
    using prepare_success_construct by simp
  from assms p r have i: "inst = pluginClass"
    by (auto simp: import_plugin_def put_def split: if_splits option.splits)
  from assms p r have "\<exists>e. map_of (pluginsPool s') (str_of (ID PluginClass)) = Some e
           \<and> p_enable e = truthy enable options
           \<and> p_instance e = (if truthy enable options then Some pluginClass else None)"
    by (auto simp: import_plugin_def put_def update_conv' split: if_splits option.splits)
  with c i show ?thesis by blast
qed

lemma demo_import_enabled:
  "import_plugin demo_host None (Some ''good'') (Some (bulk_options True)) registered_state
     = (Inr (Instance 1),
        registered_state\<lparr>
          pluginsPool := [(''abcdefghij123456'',
             \<lparr>p_enable = True,
              props = \<lparr>ID = JStr ''abcdefghij123456'', TYPE' = JNum 0, GROUP = JStr ''news'',
                       NAME = JStr ''Demo'', VERSION = JStr ''1.0'', VERSION_CODE = JNum 1,
                       PLUGIN_FILE_URL = JStr [], BASE_URL = JStr ''http://example.com''\<rparr>,
              p_instance = Some (Instance 1)\<rparr>)],
          pluginsStore := [''abcdefghij123456''],
          pluginsJSCode := [(''abcdefghij123456'', ''good'', True)],
          executed := [''good'']\<rparr>)"
  by (simp add: run_defs)

lemma demo_import_disabled:
  "import_plugin demo_host None (Some ''good'') None initial_state
     = (Inr (Instance 1),
        registered_state\<lparr>
          pluginsStore := [''abcdefghij123456''],
          pluginsJSCode := [(''abcdefghij123456'', ''good.min'', False)],
          executed := [''good.min'']\<rparr>)"
  by (simp add: run_defs)

text \<open>
  C9: \<open>import\<close>, \<open>enable\<close>, \<open>disable\<close> and \<open>delete\<close> keep the invariant that a disabled
  entry has no instance and that an entry with an instance is enabled; and the entry a
  successful \<open>import\<close> writes holds the instance its constructor returned exactly when
  \<open>enable\<close> was asked for.
\<close>

theorem registry_invariant_preserved:
  assumes "pool_invariant s"
  shows "pool_invariant (snd (import_plugin env path code options s))
         \<and> pool_invariant (snd (enable_plugin env i s))
         \<and> pool_invariant (snd (disable env i s))
         \<and> pool_invariant (delete i s)
         \<and> (\<forall>inst s'. import_plugin env path code options s = (Inr inst, s') \<longrightarrow>
               (\<exists>PluginClass e. construct env PluginClass = Inr inst
                  \<and> map_of (pluginsPool s') (str_of (ID PluginClass)) = Some e
                  \<and> p_enable e = truthy enable options
                  \<and> p_instance e = (if truthy enable options then Some inst else None)))"
  using assms import_success_entry [of env path code options s]
  by (simp add: import_keeps_invariant enable_keeps_invariant disable_keeps_invariant
        delete_keeps_invariant)

theorem registry_invariant_preserved_witness:
  "pool_invariant registered_state
   \<and> pool_invariant (snd (import_plugin demo_host None (Some ''good'') (Some (bulk_options True)) registered_state))
   \<and> pool_invariant (snd (enable_plugin demo_host ''abcdefghij123456'' registered_state))
   \<and> pool_invariant (snd (disable demo_host ''abcdefghij123456'' registered_state))
   \<and> pool_invariant (delete ''abcdefghij123456'' registered_state)
   \<and> (\<exists>PluginClass e. construct demo_host PluginClass = Inr (Instance 1)
         \<and> map_of (pluginsPool (snd (import_plugin demo_host None (Some ''good'')
                      (Some (bulk_options True)) registered_state))) (str_of (ID PluginClass)) = Some e
         \<and> p_enable e \<and> p_instance e = Some (Instance 1))"
proof -
  have h: "pool_invariant registered_state"
    by (simp add: pool_invariant_def registered_state_def initial_state_def)
  have t: "truthy enable (Some (bulk_options True))"
    by (simp add: truthy_def bulk_options_def)
  note R = registry_invariant_preserved [OF h, of demo_host None "Some ''good''"
      "Some (bulk_options True)" "''abcdefghij123456''"]
  from R demo_import_enabled t
  have "\<exists>PluginClass e. construct demo_host PluginClass = Inr (Instance 1)
         \<and> map_of (pluginsPool (snd (import_plugin demo_host None (Some ''good'')
                      (Some (bulk_options True)) registered_state))) (str_of (ID PluginClass)) = Some e
         \<and> p_enable e \<and> p_instance e = Some (Instance 1)"
    by (simp del: state.simps)
  with h R show ?thesis by blast
qed

text \<open>
  C10: in every state the registry can reach, \<open>getPluginsByType\<close> with a filter whose
  \<open>enable\<close> is false returns the empty list, for every type and every group.
\<close>

theorem disabled_filter_is_empty:
  assumes "reachable env s" and "f_enable flt = Some (Some False)"
  shows "getPluginsByType s type (Some flt) = []"
proof -
  from assms(1) have "pool_invariant s"
    by (rule reachable_invariant)
  then have "\<forall>e \<in> set (map snd (pluginsPool s)). \<not> p_enable e \<longrightarrow> p_instance e = None"
    by (auto simp: pool_invariant_def list_all_iff)
  then show ?thesis
    using assms(2) by (auto simp: getPluginsByType_def filter_empty_conv)
qed

theorem disabled_filter_is_empty_witness:
  "reachable demo_host (snd (import_plugin demo_host None (Some ''good'') None initial_state))
   \<and> map (\<lambda>(i, e). (i, p_enable e, TYPE' (props e)))
        (pluginsPool (snd (import_plugin demo_host None (Some ''good'') None initial_state)))
       = [(''abcdefghij123456'', False, JNum (type_code BOOK_SOURCE))]
   \<and> f_enable \<lparr>f_enable = Some (Some False), f_group = None\<rparr> = Some (Some False)
   \<and> getPluginsByType (snd (import_plugin demo_host None (Some ''good'') None initial_state))
        BOOK_SOURCE (Some \<lparr>f_enable = Some (Some False), f_group = None\<rparr>) = []"
proof -
  have "reachable demo_host initial_state"
    by (rule reach_initial) (simp add: initial_state_def)
  then have r: "reachable demo_host (snd (import_plugin demo_host None (Some ''good'') None initial_state))"
    by (rule reach_import)
  have f: "f_enable \<lparr>f_enable = Some (Some False), f_group = None\<rparr> = Some (Some False)"
    by simp
  have p: "map (\<lambda>(i, e). (i, p_enable e, TYPE' (props e)))
        (pluginsPool (snd (import_plugin demo_host None (Some ''good'') None initial_state)))
       = [(''abcdefghij123456'', False, JNum (type_code BOOK_SOURCE))]"
    unfolding demo_import_disabled by (simp add: registered_state_def)
  from disabled_filter_is_empty [OF r f, of BOOK_SOURCE] r f p show ?thesis
    by blast
qed

section \<open>Properties of the bulk import\<close>

text \<open>Run alone, the stages of an import make up \<open>import\<close>.\<close>

lemma import_stages_agree:
  "((\<lambda>(t, s). import_resume env t s) ^^ 4) (import_start env jscode options s)
     = (Settled (fst (import_plugin env None (Some jscode) options s)),
        snd (import_plugin env None (Some jscode) options s))"
proof (cases "if options = None \<or> truthy minify options then validate env jscode else Inr jscode")
  case (Inl e)
  then show ?thesis
    unfolding import_start_def import_plugin_def import_prepare_def resolve_def option.case sum.case check_def
    by (simp add: eval_nat_numeral resolve_def errorHandler_def)
next
  case (Inr code)
  note c = this
  show ?thesis
  proof (cases "runScript env code")
    case (Inl e)
    then show ?thesis
      unfolding import_start_def import_plugin_def import_prepare_def resolve_def option.case sum.case check_def c
      by (simp add: eval_nat_numeral resolve_def errorHandler_def pluginExports_def)
  next
    case (Inr exported)
    note r = this
    show ?thesis
    proof (cases exported)
      case None
      with r show ?thesis
        unfolding import_start_def import_plugin_def import_prepare_def resolve_def option.case sum.case check_def c
        by (simp add: eval_nat_numeral resolve_def errorHandler_def pluginExports_def)
    next
      case (Some P)
      with r show ?thesis
        unfolding import_start_def import_plugin_def import_prepare_def resolve_def option.case sum.case check_def c
        by (auto simp: eval_nat_numeral errorHandler_def pluginExports_def
              put_def pool_set_def Let_def
              split: sum.splits option.splits)
    qed
  qed
qed

text \<open>
  Under the options of \<open>importPool\<close> the result of an import is read off the host: it
  does not depend on the state the import runs in.
\<close>

lemma bulk_flags:
  "truthy force (Some (bulk_options en))"
  "\<not> truthy minify (Some (bulk_options en))"
  "\<not> truthy debug (Some (bulk_options en))"
  "truthy enable (Some (bulk_options en)) = en"
  by (simp_all add: truthy_def bulk_options_def)

lemma bulk_import_result:
  "fst (importJSCode env c (Some (bulk_options en)) s) =
     (case runScript env c of
        Inl e \<Rightarrow> Inl e
      | Inr None \<Rightarrow> Inl ''Cannot find plugin''
      | Inr (Some P) \<Rightarrow>
          (case isPlugin_throws P of
             Inl e \<Rightarrow> Inl e
           | Inr _ \<Rightarrow>
               (case construct env P of
                  Inl e \<Rightarrow> Inl e
                | Inr pc \<Rightarrow>
                    (case put_error env (str_of (ID P), c, en) of
                       Some e \<Rightarrow> Inl e
                     | None \<Rightarrow> Inr pc))))"
proof -
  note defs = importJSCode_def import_fst prepare_fst check_fst resolve_def bulk_flags
  show ?thesis
  proof (cases "runScript env c")
    case (Inl e)
    then show ?thesis by (simp add: defs)
  next
    case (Inr exported)
    note r = this
    show ?thesis
    proof (cases exported)
      case None
      with r show ?thesis by (simp add: defs)
    next
      case (Some P)
      note p = this
      show ?thesis
      proof (cases "isPlugin_throws P")
        case (Inl e)
        with r p show ?thesis by (simp add: defs)
      next
        case (Inr u)
        note v = this
        show ?thesis
        proof (cases "construct env P")
          case (Inl e)
          with r p v show ?thesis by (simp add: defs)
        next
          case (Inr pc)
          with r p v show ?thesis
            by (cases "put_error env (str_of (ID P), c, en)") (simp_all add: defs)
        qed
      qed
    qed
  qed
qed

text \<open>
  An import started by \<open>importPool\<close> stays at a stage that fits its record, touches the
  load statistics at no stage, and writes the persisted records only under the id its
  plugin exports.
\<close>

lemma task_ok_start:
  assumes "import_start env c (Some (bulk_options en)) s = (t, s1)"
  shows "task_ok env s0 (i, c, en) t"
  using assms
  by (auto simp: import_start_def pluginExports_def errorHandler_def bulk_flags
           Let_def split: sum.splits option.splits)

lemma task_ok_resume:
  assumes "task_ok env s0 (i, c, en) t" and "import_resume env t s = (t', s')"
  shows "task_ok env s0 (i, c, en) t'"
proof (cases t)
  case (AwaitExports options code r)
  with assms show ?thesis
    by (auto simp: errorHandler_def bulk_flags split: sum.splits option.splits)
next
  case (AwaitCheck options r)
  with assms show ?thesis
    by (auto simp: bulk_import_result errorHandler_def bulk_flags Let_def
             split: sum.splits option.splits if_splits)
next
  case (AwaitPut options P code pc)
  with assms show ?thesis
    by (auto simp: put_def bulk_flags split: option.splits)
next
  case (PutSettled options P pc r)
  with assms show ?thesis
    by (auto simp: bulk_import_result errorHandler_def split: sum.splits option.splits)
next
  case (Settled r)
  with assms show ?thesis by auto
qed

lemma resume_effects:
  assumes "task_ok env s0 (i, c, en) t" and "import_resume env t s = (t', s')"
    and "\<forall>P. runScript env c = Inr (Some P) \<and> isPlugin_throws P = Inr () \<longrightarrow> str_of (ID P) = i"
  shows "loadStats s' = loadStats s
         \<and> (\<forall>k. k \<noteq> i \<longrightarrow> map_of (pluginsJSCode s') k = map_of (pluginsJSCode s) k)"
proof (cases t)
  case (AwaitExports options code r)
  with assms show ?thesis by (auto split: sum.splits if_splits)
next
  case (AwaitCheck options r)
  with assms show ?thesis
    by (auto simp: getPluginStore_def pool_set_def Let_def split: sum.splits if_splits)
next
  case (AwaitPut options P code pc)
  with assms show ?thesis
    by (auto simp: put_def update_conv' split: option.splits)
next
  case (PutSettled options P pc r)
  with assms show ?thesis by (auto simp: pool_set_def split: sum.splits)
next
  case (Settled r)
  with assms show ?thesis by auto
qed

lemma resume_rank:
  assumes "import_resume env t s = (t', s')" and "import_rank t \<noteq> 0"
  shows "import_rank t' < import_rank t"
  using assms
  by (cases t) (auto simp: Let_def split: sum.splits if_splits prod.splits)

text \<open>
  One step of a promise: its record stays, what holds of it is kept, persisted records
  under other ids are left alone, and the load statistics gain its outcome exactly when
  its callback runs.
\<close>

lemma task_step_effects:
  assumes "promise_ok env s0 (pluginsJSCode s) t" and "\<not> is_Finished t"
    and "task_step env t s = (t', s')"
    and "\<forall>P. runScript env (fst (snd (record_of t))) = Inr (Some P) \<and> isPlugin_throws P = Inr ()
           \<longrightarrow> str_of (ID P) = fst (record_of t)"
  shows "record_of t' = record_of t
         \<and> promise_ok env s0 (pluginsJSCode s') t'
         \<and> (\<forall>k. k \<noteq> fst (record_of t) \<longrightarrow>
               map_of (pluginsJSCode s') k = map_of (pluginsJSCode s) k)
         \<and> (is_Importing t' \<longrightarrow> is_Importing t)
         \<and> mset (loadStats s')
             = mset (loadStats s)
               + (if is_Importing t \<and> \<not> is_Importing t'
                  then {#record_outcome env s0 (record_of t)#} else {#})"
proof (cases t)
  case (Importing r it)
  obtain i c en where r: "r = (i, c, en)"
    by (cases r)
  from assms(1) Importing r have ok: "task_ok env s0 (i, c, en) it"
    by simp
  from assms(4) Importing r
  have h: "\<forall>P. runScript env c = Inr (Some P) \<and> isPlugin_throws P = Inr () \<longrightarrow> str_of (ID P) = i"
    by simp
  show ?thesis
  proof (cases it)
    case (Settled res)
    with ok have res: "res = fst (importJSCode env c (Some (bulk_options en)) s0)"
      by simp
    show ?thesis
    proof (cases res)
      case (Inl e)
      with assms(3) Importing Settled r
      have "t' = Removing r" "s' = s\<lparr>loadStats := loadStats s @ [(i, Some e)]\<rparr>"
        by simp_all
      moreover from res [symmetric] Inl have "record_outcome env s0 (i, c, en) = (i, Some e)"
        by (simp add: record_outcome_def)
      ultimately show ?thesis
        using Importing r by simp
    next
      case (Inr x)
      with assms(3) Importing Settled r
      have "t' = Finished r" "s' = s\<lparr>loadStats := loadStats s @ [(i, None)]\<rparr>"
        by simp_all
      moreover from res [symmetric] Inr have "record_outcome env s0 (i, c, en) = (i, None)"
        by (simp add: record_outcome_def)
      ultimately show ?thesis
        using Importing r by simp
    qed
  next
    case (AwaitExports options code x)
    obtain it' where 1: "import_resume env it s = (it', s')" and 2: "t' = Importing r it'"
      using assms(3) Importing AwaitExports by (auto split: prod.splits)
    from task_ok_resume [OF ok 1] resume_effects [OF ok 1 h] 2 Importing r show ?thesis
      by simp
  next
    case (AwaitCheck options x)
    obtain it' where 1: "import_resume env it s = (it', s')" and 2: "t' = Importing r it'"
      using assms(3) Importing AwaitCheck by (auto split: prod.splits)
    from task_ok_resume [OF ok 1] resume_effects [OF ok 1 h] 2 Importing r show ?thesis
      by simp
  next
    case (AwaitPut options P code pc)
    obtain it' where 1: "import_resume env it s = (it', s')" and 2: "t' = Importing r it'"
      using assms(3) Importing AwaitPut by (auto split: prod.splits)
    from task_ok_resume [OF ok 1] resume_effects [OF ok 1 h] 2 Importing r show ?thesis
      by simp
  next
    case (PutSettled options P pc x)
    obtain it' where 1: "import_resume env it s = (it', s')" and 2: "t' = Importing r it'"
      using assms(3) Importing PutSettled by (auto split: prod.splits)
    from task_ok_resume [OF ok 1] resume_effects [OF ok 1 h] 2 Importing r show ?thesis
      by simp
  qed
next
  case (Removing r)
  with assms(3) show ?thesis
    by (auto simp: remove_def delete_conv')
next
  case (Finished r)
  with assms(2) show ?thesis by simp
qed

lemma start_chunk_tasks:
  assumes "start_chunk env arr s = (started, s')"
  shows "map record_of started = arr
         \<and> list_all (promise_ok env s0 db) started
         \<and> list_all is_Importing started"
  using assms
proof (induction arr arbitrary: s started s')
  case Nil
  then show ?case by simp
next
  case (Cons r arr)
  obtain i c en where r: "r = (i, c, en)"
    by (cases r)
  obtain t s1 where a: "import_start env c (Some (bulk_options en)) s = (t, s1)"
    by (cases "import_start env c (Some (bulk_options en)) s")
  obtain ts s2 where b: "start_chunk env arr s1 = (ts, s2)"
    by (cases "start_chunk env arr s1")
  from Cons.prems r a b have st: "started = Importing (i, c, en) t # ts"
    by simp
  from Cons.IH [OF b] task_ok_start [OF a, of s0 i] st r show ?case
    by simp
qed

lemma promise_ok_other_key:
  assumes "promise_ok env s0 db u"
    and "map_of db' (fst (record_of u)) = map_of db (fst (record_of u))"
  shows "promise_ok env s0 db' u"
  using assms by (cases u) simp_all

text \<open>Every step of the scheduler keeps the invariant of the run.\<close>

lemma pool_step_keeps_run_invariant:
  assumes inv: "run_invariant env s0 (tasks, todo, s)"
    and step: "pool_step env ch (tasks, todo, s) = Some (tasks', todo', s')"
    and d: "distinct (map fst (pluginsJSCode s0))"
    and h: "\<forall>(i, c, en) \<in> set (pluginsJSCode s0). \<forall>P.
              runScript env c = Inr (Some P) \<and> isPlugin_throws P = Inr () \<longrightarrow> str_of (ID P) = i"
  shows "run_invariant env s0 (tasks', todo', s')"
proof (cases ch)
  case (Resume k)
  with step have k: "k < length tasks" and nf: "\<not> is_Finished (tasks ! k)"
    by (auto split: if_splits)
  obtain t' where ts: "task_step env (tasks ! k) s = (t', s')"
    and new: "tasks' = tasks[k := t']" "todo' = todo"
    using step Resume k nf by (auto split: prod.splits)
  define pre where "pre = take k tasks"
  define post where "post = drop (Suc k) tasks"
  define t where "t = tasks ! k"
  have old: "tasks = pre @ t # post"
    using k by (simp add: pre_def post_def t_def id_take_nth_drop)
  have upd: "tasks' = pre @ t' # post"
    using k new(1) by (simp add: pre_def post_def upd_conv_take_nth_drop)
  from inv old have recs: "map record_of pre @ record_of t # map record_of post @ concat todo
      = pluginsJSCode s0"
    by simp
  then have mem: "record_of t \<in> set (pluginsJSCode s0)"
    by (metis in_set_conv_decomp)
  from d recs have "distinct (map fst (map record_of pre @ record_of t # map record_of post @ concat todo))"
    by simp
  then have other: "\<forall>u \<in> set pre \<union> set post. fst (record_of u) \<noteq> fst (record_of t)"
    by (fastforce simp: image_iff)
  from h mem
  have ht: "\<forall>P. runScript env (fst (snd (record_of t))) = Inr (Some P) \<and> isPlugin_throws P = Inr ()
           \<longrightarrow> str_of (ID P) = fst (record_of t)"
    by (cases "record_of t") auto
  from inv old have okt: "promise_ok env s0 (pluginsJSCode s) t"
    and oks: "\<forall>u \<in> set pre \<union> set post. promise_ok env s0 (pluginsJSCode s) u"
    by (auto simp: list_all_iff)
  from task_step_effects [OF okt _ _ ht, of t' s'] nf ts
  have e: "record_of t' = record_of t"
    "promise_ok env s0 (pluginsJSCode s') t'"
    "\<forall>k. k \<noteq> fst (record_of t) \<longrightarrow> map_of (pluginsJSCode s') k = map_of (pluginsJSCode s) k"
    "is_Importing t' \<longrightarrow> is_Importing t"
    "mset (loadStats s')
       = mset (loadStats s)
         + (if is_Importing t \<and> \<not> is_Importing t'
            then {#record_outcome env s0 (record_of t)#} else {#})"
    by (simp_all add: t_def)
  have 1: "map record_of tasks' @ concat todo' = pluginsJSCode s0"
    using recs e(1) upd new(2) by simp
  have "\<forall>u \<in> set pre \<union> set post. promise_ok env s0 (pluginsJSCode s') u"
    using oks other e(3) by (auto intro: promise_ok_other_key)
  with e(2) upd have 2: "list_all (promise_ok env s0 (pluginsJSCode s')) tasks'"
    by (auto simp: list_all_iff)
  from inv old have st: "mset (loadStats s)
      = mset (loadStats s0)
        + mset (map (record_outcome env s0)
             (map record_of (filter (\<lambda>t. \<not> is_Importing t) (pre @ t # post))))"
    by simp
  have 3: "mset (loadStats s')
      = mset (loadStats s0)
        + mset (map (record_outcome env s0)
             (map record_of (filter (\<lambda>t. \<not> is_Importing t) tasks')))"
    using st e(1,4,5) upd by auto
  from 1 2 3 show ?thesis by simp
next
  case NextChunk
  with step obtain arr started where todo: "todo = arr # todo'"
    and ni: "\<not> list_ex is_Importing tasks"
    and sc: "start_chunk env arr s = (started, s')"
    and new: "tasks' = tasks @ started"
    by (cases todo) (auto split: if_splits prod.splits)
  from start_chunk_keeps_registry [of env arr s] sc
  have k: "pluginsJSCode s' = pluginsJSCode s" "loadStats s' = loadStats s"
    by simp_all
  from start_chunk_tasks [OF sc, of s0 "pluginsJSCode s"]
  have t: "map record_of started = arr"
    "list_all (promise_ok env s0 (pluginsJSCode s)) started"
    "list_all is_Importing started"
    by simp_all
  from t(3) have f: "filter (\<lambda>t. \<not> is_Importing t) started = []"
    by (simp add: list_all_iff filter_empty_conv)
  from inv todo new t k f show ?thesis
    by simp
qed

lemma pool_run_keeps_run_invariant:
  assumes "run_invariant env s0 cfg" and "pool_run env schedule cfg = Some cfg'"
    and "distinct (map fst (pluginsJSCode s0))"
    and "\<forall>(i, c, en) \<in> set (pluginsJSCode s0). \<forall>P.
           runScript env c = Inr (Some P) \<and> isPlugin_throws P = Inr () \<longrightarrow> str_of (ID P) = i"
  shows "run_invariant env s0 cfg'"
  using assms(1,2)
proof (induction schedule arbitrary: cfg)
  case Nil
  then show ?case by simp
next
  case (Cons ch rest)
  from Cons.prems(2) obtain cfg1 where 1: "pool_step env ch cfg = Some cfg1"
    and 2: "pool_run env rest cfg1 = Some cfg'"
    by (auto split: option.splits)
  obtain tasks todo s where c: "cfg = (tasks, todo, s)"
    by (cases cfg)
  obtain tasks1 todo1 s1 where c1: "cfg1 = (tasks1, todo1, s1)"
    by (cases cfg1)
  from pool_step_keeps_run_invariant [OF _ _ assms(3,4)] Cons.prems(1) 1 c c1
  have "run_invariant env s0 cfg1"
    by blast
  from Cons.IH [OF this 2] show ?case .
qed

text \<open>
  The chunks put together are the list of records, so the invariant holds when
  \<open>importPool\<close> starts.
\<close>

lemma concat_chunkArray: "0 < n \<Longrightarrow> concat (chunkArray xs n) = xs"
proof (induction xs n rule: chunkArray.induct)
  case (1 xs n)
  show ?case
  proof (cases "xs = []")
    case True
    then show ?thesis by (simp add: chunkArray.simps)
  next
    case False
    with 1 have "concat (chunkArray (drop n xs) n) = drop n xs"
      by simp
    with False 1(2) show ?thesis
      by (subst chunkArray.simps) simp
  qed
qed

lemma run_invariant_initial:
  assumes "0 < n" and "\<not> getAll_null env"
  shows "run_invariant env s (importPool env n s)"
  using assms by (simp add: importPool_def getAll_def concat_chunkArray)

text \<open>
  Every step lowers the bound on the steps left, a configuration in which something is
  left to do has a step, and so every run can be carried on to its end.
\<close>

lemma task_step_rank:
  assumes "\<not> is_Finished t" and "task_step env t s = (t', s')"
  shows "task_rank t' < task_rank t"
proof (cases t)
  case (Importing r it)
  show ?thesis
  proof (cases "import_rank it = 0")
    case True
    then obtain res where "it = Settled res"
      by (cases it) simp_all
    with assms(2) Importing show ?thesis
      by (cases res) auto
  next
    case False
    then obtain it' where "import_resume env it s = (it', s')" "t' = Importing r it'"
      using assms(2) Importing by (cases it) (auto split: prod.splits)
    with resume_rank [of env it s it' s'] False Importing show ?thesis
      by simp
  qed
next
  case (Removing r)
  with assms(2) show ?thesis by auto
next
  case (Finished r)
  with assms(1) show ?thesis by simp
qed

lemma start_chunk_rank:
  assumes "start_chunk env arr s = (started, s')"
  shows "sum_list (map task_rank started) \<le> 6 * length arr"
  using assms
proof (induction arr arbitrary: s started s')
  case Nil
  then show ?case by simp
next
  case (Cons r arr)
  obtain i c en where r: "r = (i, c, en)"
    by (cases r)
  obtain t s1 where a: "import_start env c (Some (bulk_options en)) s = (t, s1)"
    by (cases "import_start env c (Some (bulk_options en)) s")
  obtain ts s2 where b: "start_chunk env arr s1 = (ts, s2)"
    by (cases "start_chunk env arr s1")
  from a have "import_rank t \<le> 4"
    by (auto simp: import_start_def split: sum.splits prod.splits)
  with Cons.IH [OF b] Cons.prems r a b show ?case
    by auto
qed

lemma pool_step_measure:
  assumes "pool_step env ch cfg = Some cfg'"
  shows "pool_measure cfg' < pool_measure cfg"
proof -
  obtain tasks todo s where c: "cfg = (tasks, todo, s)"
    by (cases cfg)
  show ?thesis
  proof (cases ch)
    case (Resume k)
    with assms c have k: "k < length tasks" and nf: "\<not> is_Finished (tasks ! k)"
      by (auto split: if_splits)
    obtain t' s' where ts: "task_step env (tasks ! k) s = (t', s')"
      by (cases "task_step env (tasks ! k) s")
    with assms c Resume k nf have new: "cfg' = (tasks[k := t'], todo, s')"
      by simp
    have old: "tasks = take k tasks @ tasks ! k # drop (Suc k) tasks"
      using k by (simp add: id_take_nth_drop)
    have upd: "tasks[k := t'] = take k tasks @ t' # drop (Suc k) tasks"
      using k by (simp add: upd_conv_take_nth_drop)
    have "sum_list (map task_rank (take k tasks @ t' # drop (Suc k) tasks))
        < sum_list (map task_rank (take k tasks @ tasks ! k # drop (Suc k) tasks))"
      using task_step_rank [OF nf ts] by simp
    with old upd have "sum_list (map task_rank (tasks[k := t'])) < sum_list (map task_rank tasks)"
      by simp
    with c new show ?thesis by simp
  next
    case NextChunk
    with assms c obtain arr rest started s' where todo: "todo = arr # rest"
      and sc: "start_chunk env arr s = (started, s')"
      and new: "cfg' = (tasks @ started, rest, s')"
      by (cases todo) (auto split: if_splits prod.splits)
    from start_chunk_rank [OF sc] c todo new show ?thesis
      by simp
  qed
qed

lemma pool_run_bound:
  assumes "pool_run env schedule cfg = Some cfg'"
  shows "length schedule + pool_measure cfg' \<le> pool_measure cfg"
  using assms
proof (induction schedule arbitrary: cfg)
  case Nil
  then show ?case by simp
next
  case (Cons ch rest)
  from Cons.prems obtain cfg1 where 1: "pool_step env ch cfg = Some cfg1"
    and 2: "pool_run env rest cfg1 = Some cfg'"
    by (auto split: option.splits)
  from Cons.IH [OF 2] pool_step_measure [OF 1] show ?case
    by simp
qed

lemma pool_progress:
  assumes "\<not> pool_quiescent cfg"
  shows "\<exists>ch cfg'. pool_step env ch cfg = Some cfg'"
proof -
  obtain tasks todo s where c: "cfg = (tasks, todo, s)"
    by (cases cfg)
  show ?thesis
  proof (cases "list_all is_Finished tasks")
    case False
    then obtain k where "k < length tasks" "\<not> is_Finished (tasks ! k)"
      by (auto simp: list_all_iff in_set_conv_nth)
    then have "pool_step env (Resume k) cfg \<noteq> None"
      using c by (simp split: prod.splits)
    then show ?thesis by blast
  next
    case True
    with assms c obtain arr rest where todo: "todo = arr # rest"
      by (cases todo) auto
    have "\<not> is_Importing t" if "is_Finished t" for t
      using that by (cases t) simp_all
    with True have "\<not> list_ex is_Importing tasks"
      by (auto simp: list_all_iff list_ex_iff)
    with c todo have "pool_step env NextChunk cfg \<noteq> None"
      by (simp split: prod.splits)
    then show ?thesis by blast
  qed
qed

lemma pool_completion:
  "\<exists>rest final. pool_run env rest cfg = Some final \<and> pool_quiescent final"
proof (induction "pool_measure cfg" arbitrary: cfg rule: less_induct)
  case less
  show ?case
  proof (cases "pool_quiescent cfg")
    case True
    then have "pool_run env [] cfg = Some cfg \<and> pool_quiescent cfg"
      by simp
    then show ?thesis by blast
  next
    case False
    from pool_progress [OF this] obtain ch cfg1 where 1: "pool_step env ch cfg = Some cfg1"
      by blast
    from less [OF pool_step_measure [OF 1]] obtain rest final
      where "pool_run env rest cfg1 = Some final" "pool_quiescent final"
      by blast
    with 1 have "pool_run env (ch # rest) cfg = Some final \<and> pool_quiescent final"
      by simp
    then show ?thesis by blast
  qed
qed

lemma demo_bulk_run:
  "pool_run demo_host settles_out_of_order (importPool demo_host 2 mixed_state)
     = Some ([Finished (''abcdefghij123456'', ''good'', True),
              Finished (''broken0123456789'', ''malformed'', True)], [], mixed_state_loaded)"
  by code_simp

lemma demo_bulk_outcomes:
  "fst (importJSCode demo_host ''good'' (Some (bulk_options True)) mixed_state) = Inr (Instance 1)"
  "fst (importJSCode demo_host ''malformed'' (Some (bulk_options True)) mixed_state)
     = Inl ''Static property [GROUP] Length:0, GROUP range in length [2,15]''"
  by (simp_all add: bulk_import_result demo_host_def demo_plugin_accepted
        malformed_plugin_rejected)

text \<open>
  C7: for a positive chunk size, a persistence collaborator that answers \<open>getAll\<close>, and
  persisted records with distinct ids, each stored under the id its plugin exports, and
  for every schedule of the promises of \<open>importPool\<close>: once its promise has settled, the
  load statistics have gained exactly one outcome per record, a success for every record
  whose import succeeds and the failure with its message for every record whose import
  fails, whatever the other records do and in whatever order they settle; once every
  \<open>remove\<close> has taken effect, no record is persisted under the id of a failed one; and
  every run can be carried on to that end, in a bounded number of steps.
\<close>

theorem bulk_load_isolates_failures:
  assumes "0 < n" and "\<not> getAll_null env"
    and "distinct (map fst (pluginsJSCode s))"
    and "\<forall>(i, c, en) \<in> set (pluginsJSCode s). \<forall>P.
           runScript env c = Inr (Some P) \<and> isPlugin_throws P = Inr () \<longrightarrow> str_of (ID P) = i"
    and "pool_run env schedule (importPool env n s) = Some (tasks, todo, s')"
  shows "(pool_settled (tasks, todo, s') \<longrightarrow>
            mset (loadStats s')
              = mset (loadStats s) + mset (map (record_outcome env s) (pluginsJSCode s)))
         \<and> (pool_quiescent (tasks, todo, s') \<longrightarrow>
              (\<forall>(i, c, en) \<in> set (pluginsJSCode s). \<forall>e.
                 fst (importJSCode env c (Some (bulk_options en)) s) = Inl e \<longrightarrow>
                 map_of (pluginsJSCode s') i = None))
         \<and> (\<exists>rest final. pool_run env rest (tasks, todo, s') = Some final \<and> pool_quiescent final)
         \<and> length schedule \<le> pool_measure (importPool env n s)"
proof -
  from run_invariant_initial [OF assms(1,2)] assms(5)
  have inv: "run_invariant env s (tasks, todo, s')"
    using pool_run_keeps_run_invariant [OF _ _ assms(3,4)] by blast
  have 1: "mset (loadStats s')
      = mset (loadStats s) + mset (map (record_outcome env s) (pluginsJSCode s))"
    if "pool_settled (tasks, todo, s')"
  proof -
    from that have e: "todo = []" "filter (\<lambda>t. \<not> is_Importing t) tasks = tasks"
      by (auto simp: list_ex_iff filter_id_conv)
    with inv have r: "map record_of tasks = pluginsJSCode s"
      by simp
    from inv have "mset (loadStats s')
        = mset (loadStats s)
          + mset (map (record_outcome env s)
               (map record_of (filter (\<lambda>t. \<not> is_Importing t) tasks)))"
      unfolding run_invariant.simps by blast
    then show ?thesis
      unfolding e(2) r .
  qed
  have 2: "map_of (pluginsJSCode s') i = None"
    if q: "pool_quiescent (tasks, todo, s')" and m: "(i, c, en) \<in> set (pluginsJSCode s)"
      and f: "fst (importJSCode env c (Some (bulk_options en)) s) = Inl e" for i c en e
  proof -
    from q inv have "map record_of tasks = pluginsJSCode s"
      by simp
    with m obtain t where t: "t \<in> set tasks" "record_of t = (i, c, en)"
      by (metis (no_types, lifting) imageE set_map)
    with q obtain r where "t = Finished r"
      by (cases t) (auto simp: list_all_iff)
    with t inv f show ?thesis
      by (auto simp: list_all_iff record_outcome_def)
  qed
  from pool_completion [of env "(tasks, todo, s')"] pool_run_bound [OF assms(5)] 1 2
  show ?thesis
    by (intro conjI) auto
qed

theorem bulk_load_isolates_failures_witness:
  "0 < (2::nat) \<and> \<not> getAll_null demo_host
   \<and> pluginsJSCode mixed_state
       = [(''abcdefghij123456'', ''good'', True), (''broken0123456789'', ''malformed'', True)]
   \<and> pool_run demo_host settles_out_of_order (importPool demo_host 2 mixed_state)
       = Some ([Finished (''abcdefghij123456'', ''good'', True),
                Finished (''broken0123456789'', ''malformed'', True)], [], mixed_state_loaded)
   \<and> loadStats mixed_state_loaded
       = [(''broken0123456789'',
           Some ''Static property [GROUP] Length:0, GROUP range in length [2,15]''),
          (''abcdefghij123456'', None)]
   \<and> mset (loadStats mixed_state_loaded)
       = mset (loadStats mixed_state)
         + mset (map (record_outcome demo_host mixed_state) (pluginsJSCode mixed_state))
   \<and> map_of (pluginsJSCode mixed_state_loaded) ''broken0123456789'' = None
   \<and> length settles_out_of_order \<le> pool_measure (importPool demo_host 2 mixed_state)"
proof -
  let ?tasks = "[Finished (''abcdefghij123456'', ''good'', True),
                 Finished (''broken0123456789'', ''malformed'', True)]"
  have n: "0 < (2::nat)"
    by simp
  have g: "\<not> getAll_null demo_host"
    by (simp add: demo_host_def)
  have m: "pluginsJSCode mixed_state
       = [(''abcdefghij123456'', ''good'', True), (''broken0123456789'', ''malformed'', True)]"
    by (simp add: mixed_state_def initial_state_def)
  have d: "distinct (map fst (pluginsJSCode mixed_state))"
    by (simp add: m)
  have h: "\<forall>(i, c, en) \<in> set (pluginsJSCode mixed_state). \<forall>P.
           runScript demo_host c = Inr (Some P) \<and> isPlugin_throws P = Inr () \<longrightarrow> str_of (ID P) = i"
    by (simp add: m demo_host_def demo_plugin_fields malformed_plugin_rejected)
  have l: "loadStats mixed_state_loaded
       = [(''broken0123456789'',
           Some ''Static property [GROUP] Length:0, GROUP range in length [2,15]''),
          (''abcdefghij123456'', None)]"
    by (simp add: mixed_state_loaded_def)
  have q: "pool_settled (?tasks, [], mixed_state_loaded)"
    "pool_quiescent (?tasks, [], mixed_state_loaded)"
    by simp_all
  note B = bulk_load_isolates_failures [OF n g d h demo_bulk_run]
  from B q(1) have 1: "mset (loadStats mixed_state_loaded)
       = mset (loadStats mixed_state)
         + mset (map (record_outcome demo_host mixed_state) (pluginsJSCode mixed_state))"
    by blast
  from B q(2) have "\<forall>(i, c, en) \<in> set (pluginsJSCode mixed_state). \<forall>e.
         fst (importJSCode demo_host c (Some (bulk_options en)) mixed_state) = Inl e \<longrightarrow>
         map_of (pluginsJSCode mixed_state_loaded) i = None"
    by blast
  then have 2: "map_of (pluginsJSCode mixed_state_loaded) ''broken0123456789'' = None"
    by (simp add: m demo_bulk_outcomes)
  from B have 3: "length settles_out_of_order \<le> pool_measure (importPool demo_host 2 mixed_state)"
    by blast
  from n g m demo_bulk_run l 1 2 3 show ?thesis
    by (intro conjI)
qed

end
